theory Spec2Isabelle
  imports Main "HOL-Library.Word"
begin

unbundle bit_operations_syntax

section \<open>Bytes, addresses and networks\<close>

text \<open>
  Go's \<^verbatim>\<open>byte\<close> is an 8-bit word, \<^verbatim>\<open>net.IP\<close> and \<^verbatim>\<open>net.IPMask\<close> are byte slices
  (the nil slice is the empty list), \<^verbatim>\<open>net.IPNet\<close> is a struct of both.
\<close>

type_synonym byte = "8 word"
type_synonym IP = "byte list"
type_synonym IPMask = "byte list"

record IPNet =
  IP :: IP
  Mask :: IPMask

subsection \<open>The part of Go's package net that the repository calls\<close>

text \<open>
  These functions belong to the Go standard library, not to the repository. They are
  written after the library's code: \<^verbatim>\<open>IP.To4\<close>, \<^verbatim>\<open>IP.Equal\<close>, \<^verbatim>\<open>IP.Mask\<close>,
  \<^verbatim>\<open>networkNumberAndMask\<close> and \<^verbatim>\<open>IPNet.Contains\<close>. A nil result is \<open>None\<close>.
\<close>

definition v4InV6Prefix :: "byte list" where
  "v4InV6Prefix = [0, 0, 0, 0, 0, 0, 0, 0, 0, 0, 0xff, 0xff]"

definition IPv6zero :: IP where
  "IPv6zero = replicate 16 0"

definition IPv4 :: "byte \<Rightarrow> byte \<Rightarrow> byte \<Rightarrow> byte \<Rightarrow> IP" where
  "IPv4 a b c d = v4InV6Prefix @ [a, b, c, d]"

definition To4 :: "IP \<Rightarrow> IP option" where
  "To4 ip =
     (if length ip = 4 then Some ip
      else if length ip = 16 \<and> take 12 ip = v4InV6Prefix then Some (drop 12 ip)
      else None)"

definition IP_Equal :: "IP \<Rightarrow> IP \<Rightarrow> bool" where
  "IP_Equal ip x =
     (if length ip = length x then ip = x
      else if length ip = 4 \<and> length x = 16 then take 12 x = v4InV6Prefix \<and> ip = drop 12 x
      else if length ip = 16 \<and> length x = 4 then take 12 ip = v4InV6Prefix \<and> drop 12 ip = x
      else False)"

definition allFF :: "byte list \<Rightarrow> bool" where
  "allFF b = list_all (\<lambda>c. c = 0xff) b"

definition and_bytes :: "byte list \<Rightarrow> byte list \<Rightarrow> byte list" where
  "and_bytes xs ms = map2 (\<lambda>x m. x AND m) xs ms"

definition IP_Mask :: "IP \<Rightarrow> IPMask \<Rightarrow> IP option" where
  "IP_Mask ip0 mask0 =
     (let mask = (if length mask0 = 16 \<and> length ip0 = 4 \<and> allFF (take 12 mask0)
                  then drop 12 mask0 else mask0);
          ip = (if length mask = 4 \<and> length ip0 = 16 \<and> take 12 ip0 = v4InV6Prefix
                then drop 12 ip0 else ip0)
      in if length ip \<noteq> length mask then None else Some (and_bytes ip mask))"

definition networkNumberAndMask :: "IPNet \<Rightarrow> (IP \<times> IPMask) option" where
  "networkNumberAndMask n =
     (case (case To4 (IP n) of
              Some p \<Rightarrow> Some p
            | None \<Rightarrow> if length (IP n) \<noteq> 16 then None else Some (IP n)) of
        None \<Rightarrow> None
      | Some ip \<Rightarrow>
          if length (Mask n) = 4 then (if length ip \<noteq> 4 then None else Some (ip, Mask n))
          else if length (Mask n) = 16
               then (if length ip = 4 then Some (ip, drop 12 (Mask n)) else Some (ip, Mask n))
          else None)"

definition IPNet_Contains :: "IPNet \<Rightarrow> IP \<Rightarrow> bool" where
  "IPNet_Contains n ip0 =
     (let (nn, m) = (case networkNumberAndMask n of None \<Rightarrow> ([], []) | Some p \<Rightarrow> p);
          ip = (case To4 ip0 of Some x \<Rightarrow> x | None \<Rightarrow> ip0)
      in if length ip \<noteq> length nn then False else and_bytes nn m = and_bytes ip m)"

subsection \<open>pkg/tunnel/net.go and pkg/tcp/util.go\<close>

text \<open>
  \<^verbatim>\<open>HtoNs\<close> and \<^verbatim>\<open>NtoHs\<close> are the big-endian 16-bit codec. \<^verbatim>\<open>binary.BigEndian.Uint16\<close>
  panics on a slice of fewer than two bytes, which is \<open>None\<close> here.
\<close>

definition HtoNs :: "16 word \<Rightarrow> byte list" where
  "HtoNs val = [ucast (drop_bit 8 val), ucast val]"

fun NtoHs :: "byte list \<Rightarrow> 16 word option" where
  "NtoHs (b0 # b1 # _) = Some (push_bit 8 (ucast b0) OR ucast b1)"
| "NtoHs _ = None"

text \<open>
  \<^verbatim>\<open>BroadcastAddress\<close> copies the address and ANDs \<^verbatim>\<open>ip[i]\<close> with every byte \<^verbatim>\<open>b\<close> of the
  mask, at the mask's index \<^verbatim>\<open>i\<close>. A mask longer than the address indexes out of range:
  the Go run time panics, the model returns \<open>None\<close>. Bytes of the address beyond the
  mask's length are kept as they are.
\<close>

definition BroadcastAddress :: "IPNet \<Rightarrow> IP option" where
  "BroadcastAddress ipNet =
     (if length (Mask ipNet) > length (IP ipNet) then None
      else Some (and_bytes (take (length (Mask ipNet)) (IP ipNet)) (Mask ipNet)
                 @ drop (length (Mask ipNet)) (IP ipNet)))"

text \<open>\<^verbatim>\<open>CIDRNet\<close> copies the network and masks its address with the library's \<^verbatim>\<open>IP.Mask\<close>;
  the field of the result is that (possibly nil) address.\<close>

definition CIDRNet_IP :: "IPNet \<Rightarrow> IP option" where
  "CIDRNet_IP cidr = IP_Mask (IP cidr) (Mask cidr)"

text \<open>The highest address of a network: every host bit set.\<close>

definition highest_address :: "IPNet \<Rightarrow> IP" where
  "highest_address n = map2 (\<lambda>x m. x OR NOT m) (IP n) (Mask n)"

text \<open>
  \<^verbatim>\<open>tcp.CIDRList\<close> is a slice of networks. The program builds these slices only by
  \<^verbatim>\<open>append\<close> from the nil slice, so a slice is nil exactly when it is empty, and
  \<^verbatim>\<open>IsSet\<close> (not nil) is non-emptiness.
\<close>

type_synonym CIDRList = "IPNet list"

definition CIDRList_IsSet :: "CIDRList \<Rightarrow> bool" where
  "CIDRList_IsSet this = (this \<noteq> [])"

fun CIDRList_Contains :: "CIDRList \<Rightarrow> IP \<Rightarrow> bool" where
  "CIDRList_Contains [] ip = False"
| "CIDRList_Contains (c # cs) ip = (if IPNet_Contains c ip then True else CIDRList_Contains cs ip)"

section \<open>Ingress policy (pkg/kubelink/links.go)\<close>

record IPRange =
  Allowed :: CIDRList
  Denied :: CIDRList

text \<open>A \<^verbatim>\<open>*IPRange\<close> may be nil: \<open>None\<close>.\<close>

definition IPRange_IsSet :: "IPRange option \<Rightarrow> bool" where
  "IPRange_IsSet this =
     (case this of None \<Rightarrow> False
      | Some r \<Rightarrow> CIDRList_IsSet (Allowed r) \<or> CIDRList_IsSet (Denied r))"

text \<open>
  The loop over the denied networks inside \<^verbatim>\<open>IPRange.Contains\<close>: \<open>True\<close> when the
  loop returns \<^verbatim>\<open>false\<close> from its body. The last line of the Go function,
  \<^verbatim>\<open>return true\<close>, is reached when the loop finds nothing and also when the outer
  condition fails.
\<close>

fun denied_hit :: "CIDRList \<Rightarrow> IP \<Rightarrow> bool" where
  "denied_hit [] ip = False"
| "denied_hit (c # cs) ip = (if IPNet_Contains c ip then True else denied_hit cs ip)"

definition IPRange_Contains :: "IPRange option \<Rightarrow> IP \<Rightarrow> bool" where
  "IPRange_Contains this ip =
     (case this of
        None \<Rightarrow> True
      | Some r \<Rightarrow>
          if \<not> CIDRList_IsSet (Allowed r) \<or> CIDRList_Contains (Allowed r) ip
          then (if denied_hit (Denied r) ip then False else True)
          else True)"


section \<open>Errors\<close>

text \<open>
  Every error value the modelled functions return, one constructor for each message of the
  source. \<open>EOF\<close> is \<^verbatim>\<open>io.EOF\<close>, \<open>ErrClosed\<close> the library's "use of closed network
  connection". \<open>PanicShortTunWrite\<close> stands for the \<^verbatim>\<open>panic\<close> of the read loop.
\<close>

datatype mismatch = GotButExpected | OwnNotInForeignRange | RemoteNotInLocalRange

datatype error =
    EOF
  | ErrClosed
  | TunWriteFailed
  | PanicShortTunWrite
  | BufferTooSmall nat nat
  | PacketTooLarge nat
  | ClusterAddressMismatch mismatch
  | HandshakeFailed error
  | UnexpectedPacket byte
  | PanicIndexOutOfRange
  | InvalidCidr string
  | InvalidRoutingCidr string
  | InvalidClusterIngress error
  | InvalidClusterAddress string
  | NoEndpoint
  | NoGatewayAddress
  | InvalidGatewayAddress string
  | InvalidGatewayPort string
  | InvalidPublicKey string

section \<open>Links (pkg/kubelink/links.go)\<close>

record LinkAccessInfo =
  CACert :: string
  Token :: string

record LinkDNSInfo =
  ClusterDomain :: string
  DnsIP :: IP

record LinkForeignData =
  UpdatePending :: bool
  AccessInfo :: LinkAccessInfo
  DNSInfo :: LinkDNSInfo

text \<open>
  The struct \<^verbatim>\<open>Link\<close>. The embedded \<^verbatim>\<open>LinkForeignData\<close> is the field \<open>ForeignData\<close>.
  \<^verbatim>\<open>ClusterAddress\<close> is a pointer that \<^verbatim>\<open>LinkFor\<close> never leaves nil; \<^verbatim>\<open>ServiceCIDR\<close>,
  \<^verbatim>\<open>Ingress\<close> and \<^verbatim>\<open>PublicKey\<close> may be nil. A WireGuard key is an array of bytes.
\<close>

record Link =
  Name :: string
  ServiceCIDR :: "IPNet option"
  Egress :: CIDRList
  Ingress :: "IPRange option"
  ClusterAddress :: IPNet
  Gateway :: IP
  Host :: string
  Port :: int
  Endpoint :: string
  PublicKey :: "byte list option"
  ForeignData :: LinkForeignData

definition LinkAccessInfo_Equal :: "LinkAccessInfo \<Rightarrow> LinkAccessInfo \<Rightarrow> bool" where
  "LinkAccessInfo_Equal this other = (CACert this = CACert other \<and> Token this = Token other)"

definition LinkDNSInfo_Equal :: "LinkDNSInfo \<Rightarrow> LinkDNSInfo \<Rightarrow> bool" where
  "LinkDNSInfo_Equal this other =
     (IP_Equal (DnsIP this) (DnsIP other) \<and> ClusterDomain this = ClusterDomain other)"

definition AllowIngress :: "Link \<Rightarrow> IP \<Rightarrow> bool \<times> bool" where
  "AllowIngress this ip =
     (if \<not> IPRange_IsSet (Ingress this) then (True, False)
      else (IPRange_Contains (Ingress this) ip, True))"

text \<open>
  The ingress rule in the words of the specification: a destination is admitted iff
  (Allowed is empty or some network of Allowed contains it) and no network of Denied
  contains it.
\<close>

definition spec_admit :: "CIDRList \<Rightarrow> CIDRList \<Rightarrow> IP \<Rightarrow> bool" where
  "spec_admit allowed denied dst =
     ((allowed = [] \<or> list_ex (\<lambda>c. IPNet_Contains c dst) allowed)
      \<and> \<not> list_ex (\<lambda>c. IPNet_Contains c dst) denied)"

subsection \<open>Parsing a link resource\<close>

text \<open>
  The resource \<^verbatim>\<open>v1alpha1.KubeLink\<close>, with the fields \<^verbatim>\<open>LinkFor\<close> reads: the object's
  name, its \<^verbatim>\<open>Spec\<close> and the gateway of its \<^verbatim>\<open>Status\<close>.
\<close>

record KubeLink =
  kl_Name :: string
  Spec_CIDR :: string
  Spec_ClusterAddress :: string
  Spec_Endpoint :: string
  Spec_Ingress :: "string list"
  Spec_Egress :: "string list"
  Spec_PublicKey :: string
  Status_Gateway :: string

text \<open>
  \<^verbatim>\<open>LinkFor\<close> calls parsers that are not part of the files at hand: \<^verbatim>\<open>net.ParseCIDR\<close>,
  \<^verbatim>\<open>net.ParseIP\<close>, \<^verbatim>\<open>strconv.ParseInt\<close> (base 10, 32 bits), \<^verbatim>\<open>wgtypes.ParseKey\<close> and
  \<^verbatim>\<open>fmt.Sprintf("%s:%d", ...)\<close> of the libraries, \<^verbatim>\<open>tcp.ParseNet\<close> and \<^verbatim>\<open>utils.Empty\<close> of
  the repository. They are parameters of the model; a parser's error is \<open>None\<close>.
\<close>

record extern =
  Empty :: "string \<Rightarrow> bool"
  ParseCIDR :: "string \<Rightarrow> (IP \<times> IPNet) option"
  ParseNet :: "string \<Rightarrow> IPNet option"
  ParseIP :: "string \<Rightarrow> IP option"
  ParseInt :: "string \<Rightarrow> int option"
  ParseKey :: "string \<Rightarrow> byte list option"
  Sprintf_host_port :: "string \<Rightarrow> int \<Rightarrow> string"

text \<open>\<^verbatim>\<open>strings.Split(s, ":")\<close>, for a separator of one character.\<close>

fun Split :: "string \<Rightarrow> char \<Rightarrow> string list" where
  "Split [] sep = [[]]"
| "Split (c # cs) sep =
     (if c = sep then [] # Split cs sep
      else (case Split cs sep of [] \<Rightarrow> [[c]] | p # ps \<Rightarrow> (c # p) # ps))"

fun ParseIPRange_loop :: "extern \<Rightarrow> string list \<Rightarrow> IPRange \<Rightarrow> error + IPRange" where
  "ParseIPRange_loop ext [] r = Inr r"
| "ParseIPRange_loop ext (c0 # cs) r =
     (let denied = (length c0 > 0 \<and> hd c0 = CHR ''!'');
          c = (if denied then tl c0 else c0)
      in case ParseNet ext c of
           None \<Rightarrow> Inl (InvalidCidr c)
         | Some cidr \<Rightarrow>
             ParseIPRange_loop ext cs
               (if denied then r\<lparr>Denied := Denied r @ [cidr]\<rparr>
                else r\<lparr>Allowed := Allowed r @ [cidr]\<rparr>))"

definition ParseIPRange :: "extern \<Rightarrow> string list \<Rightarrow> error + IPRange option" where
  "ParseIPRange ext list =
     (if length list > 0
      then (case ParseIPRange_loop ext list \<lparr>Allowed = [], Denied = []\<rparr> of
              Inl e \<Rightarrow> Inl e
            | Inr r \<Rightarrow> Inr (Some r))
      else Inr None)"

text \<open>The loop of \<^verbatim>\<open>LinkFor\<close> over \<^verbatim>\<open>Spec.Egress\<close>; its error message quotes \<^verbatim>\<open>Spec.CIDR\<close>.\<close>

fun egress_loop :: "extern \<Rightarrow> string \<Rightarrow> string list \<Rightarrow> CIDRList \<Rightarrow> error + CIDRList" where
  "egress_loop ext cidr_field [] egress = Inr egress"
| "egress_loop ext cidr_field (c # cs) egress =
     (case ParseNet ext c of
        None \<Rightarrow> Inl (InvalidRoutingCidr cidr_field)
      | Some cidr \<Rightarrow> egress_loop ext cidr_field cs (egress @ [cidr]))"

text \<open>
  \<^verbatim>\<open>LinkFor\<close>, step by step as in the source. \<open>defaultport\<close> is the field of the registry.
  The new link's foreign data is the zero value of the struct.
\<close>

definition zero_ForeignData :: LinkForeignData where
  "zero_ForeignData =
     \<lparr>UpdatePending = False,
      AccessInfo = \<lparr>CACert = [], Token = []\<rparr>,
      DNSInfo = \<lparr>ClusterDomain = [], DnsIP = []\<rparr>\<rparr>"

definition LinkFor :: "extern \<Rightarrow> int \<Rightarrow> KubeLink \<Rightarrow> error + Link" where
  "LinkFor ext defaultport link =
     (case (if \<not> Empty ext (Spec_CIDR link)
            then (case ParseCIDR ext (Spec_CIDR link) of
                    None \<Rightarrow> Inl (InvalidRoutingCidr (Spec_CIDR link))
                  | Some (_, cidr) \<Rightarrow> Inr (Some cidr, [cidr]))
            else Inr (None, [])) of
        Inl e \<Rightarrow> Inl e
      | Inr (serviceCIDR, egress0) \<Rightarrow>
     (case egress_loop ext (Spec_CIDR link) (Spec_Egress link) egress0 of
        Inl e \<Rightarrow> Inl e
      | Inr egress \<Rightarrow>
     (case ParseIPRange ext (Spec_Ingress link) of
        Inl e \<Rightarrow> Inl (InvalidClusterIngress e)
      | Inr ingress \<Rightarrow>
     (case ParseCIDR ext (Spec_ClusterAddress link) of
        None \<Rightarrow> Inl (InvalidClusterAddress (Spec_ClusterAddress link))
      | Some (ip, ccidr0) \<Rightarrow>
     (let ccidr = ccidr0\<lparr>IP := ip\<rparr> in
      if Spec_Endpoint link = [] then Inl NoEndpoint
      else if Status_Gateway link = [] then Inl NoGatewayAddress
      else (case ParseIP ext (Status_Gateway link) of
        None \<Rightarrow> Inl (InvalidGatewayAddress (Status_Gateway link))
      | Some gateway \<Rightarrow>
     (let endpoint0 = Spec_Endpoint link;
          parts = Split endpoint0 CHR '':''
      in case (if length endpoint0 \<noteq> 0 \<and> endpoint0 \<noteq> ''none''
               then (if length parts = 1
                     then Inr (Sprintf_host_port ext endpoint0 defaultport, defaultport)
                     else (case ParseInt ext (parts ! 1) of
                             None \<Rightarrow> Inl (InvalidGatewayPort (parts ! 1))
                           | Some i \<Rightarrow> Inr (endpoint0, i)))
               else Inr (endpoint0, defaultport)) of
        Inl e \<Rightarrow> Inl e
      | Inr (endpoint, port) \<Rightarrow>
     (case (if \<not> Empty ext (Spec_PublicKey link)
            then (case ParseKey ext (Spec_PublicKey link) of
                    None \<Rightarrow> Inl (InvalidPublicKey (Spec_PublicKey link))
                  | Some key \<Rightarrow> Inr (Some key))
            else Inr None) of
        Inl e \<Rightarrow> Inl e
      | Inr publicKey \<Rightarrow>
          Inr \<lparr>Name = kl_Name link,
               ServiceCIDR = serviceCIDR,
               Egress = egress,
               Ingress = ingress,
               ClusterAddress = ccidr,
               Gateway = gateway,
               Host = hd parts,
               Port = port,
               Endpoint = endpoint,
               PublicKey = publicKey,
               ForeignData = zero_ForeignData\<rparr>))))))))"


subsection \<open>The registry\<close>

text \<open>
  The registry keys its cluster-address index by \<^verbatim>\<open>IP.String()\<close>. The library chooses the
  form of that string in four branches, kept here as four constructors: \<^verbatim>\<open>"<nil>"\<close> for
  the empty slice, dotted decimal of the four bytes \<^verbatim>\<open>To4\<close> yields, the colon form of a
  16-byte address, and \<^verbatim>\<open>"?"\<close> with the hexadecimal dump of any other slice. Each form
  prints its bytes injectively, so two addresses have the same string exactly when they have
  the same value here; the digits themselves are not modelled.
\<close>

datatype ip_string = Str_nil | Str_dotted IP | Str_colon IP | Str_hex IP

definition IP_String :: "IP \<Rightarrow> ip_string" where
  "IP_String ip =
     (if length ip = 0 then Str_nil
      else (case To4 ip of
              Some p4 \<Rightarrow> Str_dotted p4
            | None \<Rightarrow> if length ip \<noteq> 16 then Str_hex ip else Str_colon ip))"

text \<open>
  The struct \<^verbatim>\<open>Links\<close>: three Go maps from keys to \<^verbatim>\<open>*Link\<close>. A stored link is never
  written to again (every update stores a fresh copy), so a map from keys to link values
  has the same content. The lock, the resource handle and the \<^verbatim>\<open>initialized\<close> flag take
  no part in the operations below.
\<close>

record Links =
  defaultport :: int
  links :: "string \<rightharpoonup> Link"
  endpoints :: "string \<rightharpoonup> Link"
  clusteraddr :: "ip_string \<rightharpoonup> Link"

definition NewLinks :: "int \<Rightarrow> Links" where
  "NewLinks dp = \<lparr>defaultport = dp, links = Map.empty, endpoints = Map.empty,
                  clusteraddr = Map.empty\<rparr>"

definition replaceLink :: "Links \<Rightarrow> Link \<Rightarrow> Link \<times> Links" where
  "replaceLink this link =
     (link,
      this\<lparr>links := (links this)(Name link \<mapsto> link),
           endpoints := (endpoints this)(Host link \<mapsto> link),
           clusteraddr := (clusteraddr this)(IP_String (IP (ClusterAddress link)) \<mapsto> link)\<rparr>)"

definition ReplaceLink :: "Links \<Rightarrow> Link \<Rightarrow> Link \<times> Links" where
  "ReplaceLink this link = replaceLink this link"

definition updateLink :: "extern \<Rightarrow> Links \<Rightarrow> KubeLink \<Rightarrow> (error + Link) \<times> Links" where
  "updateLink ext this klink =
     (case LinkFor ext (defaultport this) klink of
        Inl err \<Rightarrow> (Inl err, this)
      | Inr l \<Rightarrow>
          (case links this (kl_Name klink) of
             None \<Rightarrow> (case replaceLink this l of (r, this') \<Rightarrow> (Inr r, this'))
           | Some old \<Rightarrow>
               (let this1 = (if Host old \<noteq> Host l
                             then this\<lparr>endpoints := (endpoints this)(Host old := None)\<rparr>
                             else this);
                    this2 = (if \<not> IP_Equal (IP (ClusterAddress old)) (IP (ClusterAddress l))
                             then this1\<lparr>clusteraddr :=
                                    (clusteraddr this1)(IP_String (IP (ClusterAddress old)) := None)\<rparr>
                             else this1);
                    l' = l\<lparr>ForeignData := ForeignData old\<rparr>
                in case replaceLink this2 l' of (r, this') \<Rightarrow> (Inr r, this'))))"

definition UpdateLink :: "extern \<Rightarrow> Links \<Rightarrow> KubeLink \<Rightarrow> (error + Link) \<times> Links" where
  "UpdateLink ext this klink = updateLink ext this klink"

definition RemoveLink :: "Links \<Rightarrow> string \<Rightarrow> Links" where
  "RemoveLink this name =
     (case links this name of
        None \<Rightarrow> this
      | Some l \<Rightarrow>
          this\<lparr>links := (links this)(name := None),
               endpoints := (endpoints this)(Host l := None),
               clusteraddr := (clusteraddr this)(IP_String (IP (ClusterAddress l)) := None)\<rparr>)"

definition GetLink :: "Links \<Rightarrow> string \<Rightarrow> Link option" where
  "GetLink this name = links this name"

definition GetLinkForClusterAddress :: "Links \<Rightarrow> IP \<Rightarrow> Link option" where
  "GetLinkForClusterAddress this ip = clusteraddr this (IP_String ip)"

definition GetLinkForEndpoint :: "Links \<Rightarrow> string \<Rightarrow> Link option" where
  "GetLinkForEndpoint this dnsname = endpoints this dnsname"

text \<open>
  \<^verbatim>\<open>LinkInfoUpdated\<close> and \<^verbatim>\<open>UpdateLinkInfo\<close>. The pointer arguments \<^verbatim>\<open>access\<close> and \<^verbatim>\<open>dns\<close>
  are options; the source sets a pointer to nil to record that its value was not applied.
\<close>

definition set_pending :: "bool \<Rightarrow> Link \<Rightarrow> Link" where
  "set_pending b l = l\<lparr>ForeignData := (ForeignData l)\<lparr>UpdatePending := b\<rparr>\<rparr>"

definition LinkInfoUpdated ::
  "Links \<Rightarrow> string \<Rightarrow> LinkAccessInfo option \<Rightarrow> LinkDNSInfo option \<Rightarrow> Link option \<times> Links" where
  "LinkInfoUpdated this name access0 dns0 =
     (case links this name of
        None \<Rightarrow> (None, this)
      | Some old \<Rightarrow>
          (let (new1, access) =
                 (case access0 of
                    Some a \<Rightarrow>
                      if LinkAccessInfo_Equal (AccessInfo (ForeignData old)) a
                      then (set_pending False old, Some a) else (old, None)
                  | None \<Rightarrow> (old, None));
               (new2, dns) =
                 (case dns0 of
                    Some d \<Rightarrow>
                      if LinkDNSInfo_Equal (DNSInfo (ForeignData old)) d
                      then (set_pending False new1, Some d) else (new1, None)
                  | None \<Rightarrow> (new1, None))
           in if access \<noteq> None \<or> dns \<noteq> None
              then (case replaceLink this new2 of (r, this') \<Rightarrow> (Some r, this'))
              else (Some old, this)))"

definition UpdateLinkInfo ::
  "Links \<Rightarrow> string \<Rightarrow> LinkAccessInfo option \<Rightarrow> LinkDNSInfo option \<Rightarrow> bool
     \<Rightarrow> (Link option \<times> bool) \<times> Links" where
  "UpdateLinkInfo this name access0 dns0 pending =
     (case links this name of
        None \<Rightarrow> ((None, False), this)
      | Some old \<Rightarrow>
          (let (new1, access) =
                 (case access0 of
                    Some a \<Rightarrow>
                      if \<not> LinkAccessInfo_Equal (AccessInfo (ForeignData old)) a
                      then (if \<not> UpdatePending (ForeignData old) \<or> pending
                            then (old\<lparr>ForeignData :=
                                       (ForeignData old)\<lparr>AccessInfo := a,
                                                         UpdatePending := pending\<rparr>\<rparr>, Some a)
                            else (old, None))
                      else (old, None)
                  | None \<Rightarrow> (old, None));
               (new2, dns) =
                 (case dns0 of
                    Some d \<Rightarrow>
                      if \<not> LinkDNSInfo_Equal (DNSInfo (ForeignData old)) d
                      then (if \<not> UpdatePending (ForeignData old) \<or> pending
                            then (new1\<lparr>ForeignData :=
                                        (ForeignData new1)\<lparr>DNSInfo := d,
                                                           UpdatePending := pending\<rparr>\<rparr>, Some d)
                            else (new1, None))
                      else (new1, None)
                  | None \<Rightarrow> (new1, None))
           in if access \<noteq> None \<or> dns \<noteq> None
              then (case replaceLink this new2 of (r, this') \<Rightarrow> ((Some r, True), this'))
              else ((Some old, False), this)))"

text \<open>The mutating operations of the registry as commands, and a run of commands from
  the left.\<close>

datatype registry_op =
    OpUpdateLink KubeLink
  | OpReplaceLink Link
  | OpRemoveLink string
  | OpLinkInfoUpdated string "LinkAccessInfo option" "LinkDNSInfo option"
  | OpUpdateLinkInfo string "LinkAccessInfo option" "LinkDNSInfo option" bool

fun apply_op :: "extern \<Rightarrow> Links \<Rightarrow> registry_op \<Rightarrow> Links" where
  "apply_op ext this (OpUpdateLink klink) = snd (UpdateLink ext this klink)"
| "apply_op ext this (OpReplaceLink link) = snd (ReplaceLink this link)"
| "apply_op ext this (OpRemoveLink name) = RemoveLink this name"
| "apply_op ext this (OpLinkInfoUpdated name access dns) = snd (LinkInfoUpdated this name access dns)"
| "apply_op ext this (OpUpdateLinkInfo name access dns pending) =
     snd (UpdateLinkInfo this name access dns pending)"

definition run_ops :: "extern \<Rightarrow> Links \<Rightarrow> registry_op list \<Rightarrow> Links" where
  "run_ops ext this ops = foldl (apply_op ext) this ops"


text \<open>
  Every entry of the three maps sits under the key its link carries: the name, the host,
  the string of the cluster address.
\<close>

definition keyed :: "Links \<Rightarrow> bool" where
  "keyed this =
     ((\<forall>n l. links this n = Some l \<longrightarrow> Name l = n)
      \<and> (\<forall>h l. endpoints this h = Some l \<longrightarrow> Host l = h)
      \<and> (\<forall>k l. clusteraddr this k = Some l \<longrightarrow> IP_String (IP (ClusterAddress l)) = k))"

section \<open>Listener (pkg/tcp/util.go)\<close>

text \<open>
  \<^verbatim>\<open>onceCloseListener\<close> wraps a \<^verbatim>\<open>net.Listener\<close>, an interface: the wrapped listener is a
  state of any type with its own \<^verbatim>\<open>Close\<close>, the parameter \<open>lclose\<close>. \<^verbatim>\<open>sync.Once\<close> is the
  flag \<open>once_done\<close>.
\<close>

record 'l onceCloseListener =
  Listener :: 'l
  once_done :: bool
  closeErr :: "error option"

definition onceCloseListener_close ::
  "('l \<Rightarrow> error option \<times> 'l) \<Rightarrow> 'l onceCloseListener \<Rightarrow> 'l onceCloseListener" where
  "onceCloseListener_close lclose oc =
     (case lclose (Listener oc) of (e, l') \<Rightarrow> oc\<lparr>Listener := l', closeErr := e\<rparr>)"

definition onceCloseListener_Close ::
  "('l \<Rightarrow> error option \<times> 'l) \<Rightarrow> 'l onceCloseListener \<Rightarrow> error option \<times> 'l onceCloseListener" where
  "onceCloseListener_Close lclose oc =
     (let oc' = (if once_done oc then oc
                 else (onceCloseListener_close lclose oc)\<lparr>once_done := True\<rparr>)
      in (closeErr oc', oc'))"

section \<open>Tunnel connections (pkg/controllers/endpoints.go, package broker)\<close>

subsection \<open>The byte stream\<close>

text \<open>
  A \<^verbatim>\<open>net.Conn\<close> as the tunnel sees it: \<open>rd\<close> are the bytes the peer has sent and the
  tunnel has not read yet (then the stream ends), \<open>wr\<close> the bytes written to the peer.
  A \<^verbatim>\<open>Read\<close> into a buffer of \<open>k\<close> bytes returns at least one and at most
  \<open>Suc (rchunk c)\<close> bytes, so reads can be short; it returns \<^verbatim>\<open>io.EOF\<close> at the end of
  the stream. A \<^verbatim>\<open>Write\<close> without error takes all its bytes, as \<^verbatim>\<open>io.Writer\<close> demands.
  The first \<^verbatim>\<open>Close\<close> succeeds; after it every operation, \<^verbatim>\<open>Close\<close> included, fails with
  the library's error for a closed connection.
\<close>

record conn =
  rd :: "byte list"
  wr :: "byte list"
  closed :: bool
  rchunk :: nat

definition conn_Read :: "conn \<Rightarrow> nat \<Rightarrow> error + (byte list \<times> conn)" where
  "conn_Read c k =
     (if closed c then Inl ErrClosed
      else if k = 0 then Inr ([], c)
      else if rd c = [] then Inl EOF
      else (let n = min (Suc (rchunk c)) (min k (length (rd c)))
            in Inr (take n (rd c), c\<lparr>rd := drop n (rd c)\<rparr>)))"

definition conn_Write :: "conn \<Rightarrow> byte list \<Rightarrow> error + (nat \<times> conn)" where
  "conn_Write c data =
     (if closed c then Inl ErrClosed else Inr (length data, c\<lparr>wr := wr c @ data\<rparr>))"

definition conn_Close :: "conn \<Rightarrow> error option \<times> conn" where
  "conn_Close c = (if closed c then (Some ErrClosed, c) else (None, c\<lparr>closed := True\<rparr>))"

subsection \<open>Frames\<close>

definition BufferSize :: nat where
  "BufferSize = 17000"

definition PACKET_TYPE_DATA :: byte where
  "PACKET_TYPE_DATA = 0"

definition PACKET_TYPE_HELLO :: byte where
  "PACKET_TYPE_HELLO = 1"

text \<open>
  \<^verbatim>\<open>read(r, data)\<close> fills a slice of \<open>len\<close> bytes: \<open>got\<close> is \<^verbatim>\<open>data[0:start]\<close>. The result
  is the error, the bytes read so far and the stream.
\<close>

function read :: "conn \<Rightarrow> nat \<Rightarrow> byte list \<Rightarrow> error option \<times> byte list \<times> conn" where
  "read c len got =
     (if length got < len
      then (case conn_Read c (len - length got) of
              Inl err \<Rightarrow> (Some err, got, c)
            | Inr (bs, c') \<Rightarrow> read c' len (got @ bs))
      else (None, got, c))"
  by pat_completeness auto
termination
proof (relation "measure (\<lambda>(c, len, got). len - length got)", goal_cases)
  case 1
  show ?case by simp
next
  case (2 c len got x bs c')
  then have "bs \<noteq> []"
    by (auto simp: conn_Read_def Let_def min_def split: if_splits)
  with 2 show ?case
    by (cases bs) auto
qed

declare read.simps [simp del]

text \<open>\<^verbatim>\<open>write(w, data)\<close>, named \<open>write_data\<close> here (\<open>write\<close> is a word of Isar):
  \<open>data\<close> is \<^verbatim>\<open>data[start:]\<close>, what is left to write.\<close>

function write_data :: "conn \<Rightarrow> byte list \<Rightarrow> error option \<times> conn" where
  "write_data c data =
     (if 0 < length data
      then (case conn_Write c data of
              Inl err \<Rightarrow> (Some err, c)
            | Inr (n, c') \<Rightarrow> write_data c' (drop n data))
      else (None, c))"
  by pat_completeness auto
termination
  by (relation "measure (\<lambda>(c, data). length data)")
     (auto simp: conn_Write_def split: if_splits)

declare write_data.simps [simp del]

text \<open>
  \<^verbatim>\<open>ReadPacket(data)\<close> returns the length, the type, the error, and leaves the payload in
  \<^verbatim>\<open>data[0:length]\<close>: the fourth component is the buffer after the call.
\<close>

definition ReadPacket :: "conn \<Rightarrow> byte list \<Rightarrow> int \<times> byte \<times> error option \<times> byte list \<times> conn" where
  "ReadPacket c data =
     (case read c 3 [] of
        (Some err, lbuf, c1) \<Rightarrow> (0, 0, Some err, data, c1)
      | (None, lbuf, c1) \<Rightarrow>
          (case lbuf of
             [b0, b1, ty] \<Rightarrow>
               (case NtoHs [b0, b1] of
                  None \<Rightarrow> (0, 0, Some PanicIndexOutOfRange, data, c1)
                | Some len \<Rightarrow>
                    if unat len > length data
                    then (0, 0, Some (BufferTooSmall (length data) (unat len)), data, c1)
                    else (case read c1 (unat len) [] of
                            (err, got, c2) \<Rightarrow>
                              (int (unat len), ty, err, got @ drop (length got) data, c2)))
           | _ \<Rightarrow> (0, 0, Some PanicIndexOutOfRange, data, c1)))"

definition WritePacket :: "conn \<Rightarrow> byte \<Rightarrow> byte list \<Rightarrow> error option \<times> conn" where
  "WritePacket c ty data =
     (if length data > 65535 then (Some (PacketTooLarge (length data)), c)
      else (let lbuf = HtoNs (of_nat (length data))
            in case write_data c (lbuf @ [ty]) of
                 (Some err, c1) \<Rightarrow> (Some err, c1)
               | (None, c1) \<Rightarrow> write_data c1 data))"

text \<open>The wire frame in the words of the specification: length (u16, big-endian), type,
  payload.\<close>

definition frame :: "byte \<Rightarrow> byte list \<Rightarrow> byte list" where
  "frame ty p = HtoNs (of_nat (length p)) @ [ty] @ p"


subsection \<open>The multiplexer as the tunnel sees it\<close>

text \<open>
  The tun device: a \<^verbatim>\<open>Write\<close> delivers one whole packet, or fails when the device is
  broken. \<open>tun_out\<close> lists the packets delivered, oldest first.
\<close>

record tun =
  tun_out :: "byte list list"
  tun_broken :: bool

definition tun_Write :: "tun \<Rightarrow> byte list \<Rightarrow> int \<times> error option \<times> tun" where
  "tun_Write t p =
     (if tun_broken t then (0, Some TunWriteFailed, t)
      else (int (length p), None, t\<lparr>tun_out := tun_out t @ [p]\<rparr>))"

text \<open>
  The fields of \<^verbatim>\<open>Mux\<close> that the tunnel reads: the own mesh address with the mesh's mask,
  the local service networks, the registry and the tun device.
\<close>

record Mux =
  clusterAddr :: IPNet
  local_cidrs :: CIDRList
  mux_links :: Links
  mux_tun :: tun

text \<open>
  \<^verbatim>\<open>ipv4.ParseHeader\<close> of golang.org/x/net, as far as the read loop uses it: it fails on
  fewer than 20 bytes and on fewer bytes than the header length the first byte declares;
  source and destination are bytes 12 to 15 and 16 to 19, as 16-byte addresses.
\<close>

record ipv4_Header =
  Src :: IP
  Dst :: IP

definition ipv4_ParseHeader :: "byte list \<Rightarrow> ipv4_Header option" where
  "ipv4_ParseHeader b =
     (if length b < 20 then None
      else if length b < unat (hd b AND 0x0f) * 4 then None
      else Some \<lparr>Src = IPv4 (b ! 12) (b ! 13) (b ! 14) (b ! 15),
                 Dst = IPv4 (b ! 16) (b ! 17) (b ! 18) (b ! 19)\<rparr>)"

text \<open>
  The checks of the read loop between the test of the packet type and the write to the
  tun device: \<open>False\<close> where the loop says \<^verbatim>\<open>continue\<close> (the packet is dropped), \<open>True\<close>
  where it goes on to the write. The packet is not empty here.
\<close>

definition ingress_pass :: "Mux \<Rightarrow> byte list \<Rightarrow> bool" where
  "ingress_pass mux packet =
     (let vers = drop_bit 4 (hd packet) in
      if vers = 4
      then (case ipv4_ParseHeader packet of
              None \<Rightarrow> False
            | Some header \<Rightarrow>
                if IPNet_Contains (clusterAddr mux) (Src header)
                then (case GetLinkForClusterAddress (mux_links mux) (Src header) of
                        None \<Rightarrow> False
                      | Some l \<Rightarrow>
                          (case AllowIngress l (Dst header) of
                             (granted, is_set) \<Rightarrow>
                               if \<not> granted then False
                               else if \<not> is_set \<and> CIDRList_IsSet (local_cidrs mux)
                                       \<and> \<not> CIDRList_Contains (local_cidrs mux) (Dst header)
                               then False
                               else True))
                else (if \<not> IP_Equal (Dst header) (IP (clusterAddr mux)) then False else True))
      else True)"


lemma read_consumes:
  "read c len got = (None, got', c') \<Longrightarrow> length got \<le> len \<Longrightarrow>
   length (rd c) = length (rd c') + (len - length got)"
proof (induction c len got rule: read.induct)
  case (1 c len got)
  show ?case
  proof (cases "length got < len")
    case False
    with 1(2,3) show ?thesis by (simp add: read.simps)
  next
    case True
    with 1(2) obtain bs c1 where r: "conn_Read c (len - length got) = Inr (bs, c1)"
      and rec: "read c1 len (got @ bs) = (None, got', c')"
      by (subst (asm) read.simps) (auto split: sum.splits)
    from r True have bs: "length bs \<le> len - length got" "length (rd c) = length (rd c1) + length bs"
      by (auto simp: conn_Read_def Let_def split: if_splits)
    from bs(1) True have "length (got @ bs) \<le> len" by simp
    from 1(1)[OF True r refl rec this] bs True show ?thesis by simp
  qed
qed

lemma ReadPacket_consumes:
  assumes "ReadPacket c data = (n, ty, None, data', c')"
  shows "length (rd c') < length (rd c)"
proof -
  from assms obtain lbuf c1 where h: "read c 3 [] = (None, lbuf, c1)"
    by (auto simp: ReadPacket_def split: prod.splits option.splits)
  from read_consumes[OF h] have l1: "length (rd c) = length (rd c1) + 3" by simp
  from assms h obtain len :: "16 word" and got where "read c1 (unat len) [] = (None, got, c')"
    by (auto simp: ReadPacket_def split: prod.splits option.splits list.splits if_splits)
  from read_consumes[OF this] have "length (rd c1) = length (rd c') + unat len" by simp
  with l1 show ?thesis by simp
qed

text \<open>
  The read loop \<^verbatim>\<open>serve\<close>. The result is the error the loop returns with, the multiplexer
  (its tun device written to) and the stream. The stream of the model is finite, so the
  loop ends, at the latest with the end of the stream.
\<close>

function serve :: "Mux \<Rightarrow> conn \<Rightarrow> byte list \<Rightarrow> error \<times> Mux \<times> conn" where
  "serve mux c buffer =
     (case ReadPacket c buffer of
        (n, ty, err, buffer', c') \<Rightarrow>
          (case err of
             Some e \<Rightarrow> ((if n \<le> 0 then EOF else e), mux, c')
           | None \<Rightarrow>
               if n < 0 then (EOF, mux, c')
               else if n = 0 then serve mux c' buffer'
               else if ty \<noteq> PACKET_TYPE_DATA then serve mux c' buffer'
               else if \<not> ingress_pass mux (take (nat n) buffer') then serve mux c' buffer'
               else (case tun_Write (mux_tun mux) (take (nat n) buffer') of
                       (out, Some werr, t') \<Rightarrow> (werr, mux\<lparr>mux_tun := t'\<rparr>, c')
                     | (out, None, t') \<Rightarrow>
                         if n \<noteq> out then (PanicShortTunWrite, mux\<lparr>mux_tun := t'\<rparr>, c')
                         else serve (mux\<lparr>mux_tun := t'\<rparr>) c' buffer')))"
  by pat_completeness auto
termination
  by (relation "measure (\<lambda>(mux, c, buffer). length (rd c))")
     (auto dest: ReadPacket_consumes ReadPacket_consumes[OF sym])

text \<open>\<^verbatim>\<open>Serve\<close> starts the loop on a zeroed buffer of \<^verbatim>\<open>BufferSize\<close> bytes.\<close>

declare serve.simps [simp del]

definition Serve :: "Mux \<Rightarrow> conn \<Rightarrow> error \<times> Mux \<times> conn" where
  "Serve mux c = serve mux c (replicate BufferSize 0)"


text \<open>
  A stream of frames, each a type and a payload, as bytes on the wire; and the payloads the
  read loop hands to the tun device: those of the frames of type DATA that are not empty
  and pass the checks, in the order of the stream.
\<close>

definition encode :: "(byte \<times> byte list) list \<Rightarrow> byte list" where
  "encode fs = concat (map (\<lambda>(ty, p). frame ty p) fs)"

definition fits :: "byte \<times> byte list \<Rightarrow> bool" where
  "fits f = (length (snd f) \<le> BufferSize)"

definition delivered :: "Mux \<Rightarrow> (byte \<times> byte list) list \<Rightarrow> byte list list" where
  "delivered mux fs =
     map snd (filter (\<lambda>(ty, p). p \<noteq> [] \<and> ty = PACKET_TYPE_DATA \<and> ingress_pass mux p) fs)"

subsection \<open>Handshake and construction\<close>

text \<open>
  The hello codec (\<^verbatim>\<open>ConnectionHello\<close>, \<^verbatim>\<open>ParseConnectionHello\<close>, \<^verbatim>\<open>createHello\<close>) is not
  part of the files at hand. Of a parsed hello the constructor reads \<^verbatim>\<open>GetClusterCIDR()\<close>
  only. The parser \<open>parse\<close> (\<^verbatim>\<open>parseHelloPacket\<close>; a nil hello without error is
  \<open>Inr None\<close>) and the bytes \<open>local_data\<close> of the local hello are parameters.
\<close>

record ConnectionHello =
  hello_ClusterCIDR :: IPNet

type_synonym hello_parser = "byte list \<Rightarrow> error + ConnectionHello option"

definition writeHello :: "conn \<Rightarrow> byte list \<Rightarrow> error option \<times> conn" where
  "writeHello c local_data = WritePacket c PACKET_TYPE_HELLO local_data"

definition readHello :: "hello_parser \<Rightarrow> conn \<Rightarrow> (error + ConnectionHello option) \<times> conn" where
  "readHello parse c =
     (case ReadPacket c (replicate BufferSize 0) of
        (n, ty, Some err, buffer, c') \<Rightarrow> (Inl err, c')
      | (n, ty, None, buffer, c') \<Rightarrow>
          if ty \<noteq> PACKET_TYPE_HELLO then (Inl (UnexpectedPacket ty), c')
          else (parse (take (nat n) buffer), c'))"

text \<open>
  \<^verbatim>\<open>handshake\<close> writes the local hello in a goroutine while it reads the remote one. The
  two act on different directions of the stream, so one after the other gives the same
  result. A read error is reported before a write error.
\<close>

definition handshake ::
  "hello_parser \<Rightarrow> byte list \<Rightarrow> conn \<Rightarrow> (error + ConnectionHello option) \<times> conn" where
  "handshake parse local_data c =
     (case writeHello c local_data of
        (werr, c1) \<Rightarrow>
          (case readHello parse c1 of
             (Inl rerr, c2) \<Rightarrow> (Inl (HandshakeFailed rerr), c2)
           | (Inr remote, c2) \<Rightarrow>
               (case werr of
                  Some e \<Rightarrow> (Inl (HandshakeFailed e), c2)
                | None \<Rightarrow> (Inr remote, c2))))"

text \<open>
  \<^verbatim>\<open>TunnelConnection\<close>: the stream, the expected cluster address (nil without an expected
  link) and the remote address. \<^verbatim>\<open>NewTunnelConnection\<close> returns the tunnel, the hello and
  the error, each of which may be nil.
\<close>

record TunnelConnection =
  t_conn :: conn
  clusterCIDR :: "IPNet option"
  remoteAddress :: string

definition NewTunnelConnection ::
  "hello_parser \<Rightarrow> byte list \<Rightarrow> Mux \<Rightarrow> conn \<Rightarrow> string \<Rightarrow> Link option
     \<Rightarrow> TunnelConnection option \<times> ConnectionHello option \<times> error option" where
  "NewTunnelConnection parse local_data mux c remote link =
     (case handshake parse local_data c of
        (Inl err, c') \<Rightarrow> (None, None, Some err)
      | (Inr hello_opt, c') \<Rightarrow>
          (let t = \<lparr>t_conn = c',
                    clusterCIDR = (case link of None \<Rightarrow> None | Some l \<Rightarrow> Some (ClusterAddress l)),
                    remoteAddress = remote\<rparr>
           in case hello_opt of
                None \<Rightarrow> (Some t, None, None)
              | Some hello \<Rightarrow>
                  (let cidr = hello_ClusterCIDR hello in
                   if \<not> IP_Equal IPv6zero (IP cidr)
                   then (case (case link of
                                 None \<Rightarrow> None
                               | Some l \<Rightarrow>
                                   if \<not> IP_Equal (IP (ClusterAddress l)) (IP cidr)
                                   then Some (ClusterAddressMismatch GotButExpected)
                                   else None) of
                           Some err \<Rightarrow> (None, Some hello, Some err)
                         | None \<Rightarrow>
                             if \<not> IPNet_Contains cidr (IP (clusterAddr mux))
                             then (None, Some hello, Some (ClusterAddressMismatch OwnNotInForeignRange))
                             else if \<not> IPNet_Contains (clusterAddr mux) (IP cidr)
                             then (None, Some hello, Some (ClusterAddressMismatch RemoteNotInLocalRange))
                             else (Some t, Some hello, None))
                   else (Some t, Some hello, None))))"

definition TunnelConnection_Close :: "TunnelConnection \<Rightarrow> error option \<times> TunnelConnection" where
  "TunnelConnection_Close this =
     (case conn_Close (t_conn this) of (e, c') \<Rightarrow> (e, this\<lparr>t_conn := c'\<rparr>))"

text \<open>Calling a \<^verbatim>\<open>Close\<close> again and again: the errors returned, first call first.\<close>

fun close_times :: "('s \<Rightarrow> error option \<times> 's) \<Rightarrow> nat \<Rightarrow> 's \<Rightarrow> error option list" where
  "close_times cl 0 s = []"
| "close_times cl (Suc n) s = (case cl s of (e, s') \<Rightarrow> e # close_times cl n s')"


text \<open>The state after calling a \<^verbatim>\<open>Close\<close> \<open>n\<close> times.\<close>

fun close_state :: "('s \<Rightarrow> error option \<times> 's) \<Rightarrow> nat \<Rightarrow> 's \<Rightarrow> 's" where
  "close_state cl 0 s = s"
| "close_state cl (Suc n) s = close_state cl n (snd (cl s))"

text \<open>
  A wrapped listener with a counter of the calls of its \<^verbatim>\<open>Close\<close>: the state is paired
  with the number of calls so far.
\<close>

definition counted :: "('l \<Rightarrow> error option \<times> 'l) \<Rightarrow> 'l \<times> nat \<Rightarrow> error option \<times> ('l \<times> nat)" where
  "counted lclose lk = (case lclose (fst lk) of (e, l') \<Rightarrow> (e, (l', Suc (snd lk))))"

section \<open>Sample data\<close>

text \<open>
  The policy of scenario S3 of the specification,
  \<^verbatim>\<open>ingress=["100.64.16.0/28", "!100.64.16.5/32"]\<close>, and a link that carries it: the peer
  with the mesh address 192.168.0.12/24. \<^verbatim>\<open>net.ParseCIDR\<close> gives an IPv4 address in its
  16-byte form and the mask in four bytes.
\<close>

definition ex_policy :: IPRange where
  "ex_policy =
     \<lparr>Allowed = [\<lparr>IP = [100, 64, 16, 0], Mask = [255, 255, 255, 240]\<rparr>],
      Denied = [\<lparr>IP = [100, 64, 16, 5], Mask = [255, 255, 255, 255]\<rparr>]\<rparr>"

definition ex_link :: Link where
  "ex_link =
     \<lparr>Name = ''b'',
      ServiceCIDR = None,
      Egress = [],
      Ingress = Some ex_policy,
      ClusterAddress = \<lparr>IP = IPv4 192 168 0 12, Mask = [255, 255, 255, 0]\<rparr>,
      Gateway = IPv4 10 250 0 1,
      Host = ''b.example'',
      Port = 8088,
      Endpoint = ''b.example:8088'',
      PublicKey = None,
      ForeignData = zero_ForeignData\<rparr>"

text \<open>
  A finite table of the parsers' values, enough for the sample resources: two resources
  with different names and the same cluster address and endpoint.
\<close>

definition ex_ext :: extern where
  "ex_ext =
     \<lparr>Empty = (\<lambda>s. s = []),
      ParseCIDR = (\<lambda>s. if s = ''192.168.0.12/24''
                        then Some (IPv4 192 168 0 12,
                                   \<lparr>IP = [192, 168, 0, 0], Mask = [255, 255, 255, 0]\<rparr>)
                        else None),
      ParseNet = (\<lambda>s. if s = ''100.64.16.0/28''
                       then Some \<lparr>IP = [100, 64, 16, 0], Mask = [255, 255, 255, 240]\<rparr>
                       else if s = ''100.64.16.5/32''
                       then Some \<lparr>IP = [100, 64, 16, 5], Mask = [255, 255, 255, 255]\<rparr>
                       else None),
      ParseIP = (\<lambda>s. if s = ''10.250.0.1'' then Some (IPv4 10 250 0 1) else None),
      ParseInt = (\<lambda>s. if s = ''8088'' then Some 8088 else None),
      ParseKey = (\<lambda>s. None),
      Sprintf_host_port = (\<lambda>h p. h @ '':'' @ (if p = 8088 then ''8088'' else ''80''))\<rparr>"

definition ex_kl_b :: KubeLink where
  "ex_kl_b =
     \<lparr>kl_Name = ''b'', Spec_CIDR = [], Spec_ClusterAddress = ''192.168.0.12/24'',
      Spec_Endpoint = ''b.example:8088'',
      Spec_Ingress = [''100.64.16.0/28'', ''!100.64.16.5/32''],
      Spec_Egress = [], Spec_PublicKey = [], Status_Gateway = ''10.250.0.1''\<rparr>"

definition ex_kl_a :: KubeLink where
  "ex_kl_a = ex_kl_b\<lparr>kl_Name := ''a'', Spec_Ingress := []\<rparr>"

definition ex_link_a :: Link where
  "ex_link_a = ex_link\<lparr>Name := ''a'', Ingress := None\<rparr>"

text \<open>The registry after the first resource, and after both.\<close>

definition ex_state_a :: Links where
  "ex_state_a =
     \<lparr>defaultport = 80,
      links = [''a'' \<mapsto> ex_link_a],
      endpoints = [''b.example'' \<mapsto> ex_link_a],
      clusteraddr = [Str_dotted [192, 168, 0, 12] \<mapsto> ex_link_a]\<rparr>"

definition ex_state_ab :: Links where
  "ex_state_ab =
     \<lparr>defaultport = 80,
      links = [''a'' \<mapsto> ex_link_a, ''b'' \<mapsto> ex_link],
      endpoints = [''b.example'' \<mapsto> ex_link],
      clusteraddr = [Str_dotted [192, 168, 0, 12] \<mapsto> ex_link]\<rparr>"

text \<open>Access information advertised for link \<open>b\<close>, staged and pending.\<close>

definition ex_access :: LinkAccessInfo where
  "ex_access = \<lparr>CACert = ''ca-1'', Token = ''token-1''\<rparr>"

definition ex_access2 :: LinkAccessInfo where
  "ex_access2 = \<lparr>CACert = ''ca-2'', Token = ''token-2''\<rparr>"

definition ex_link_pending :: Link where
  "ex_link_pending =
     ex_link\<lparr>ForeignData := zero_ForeignData\<lparr>AccessInfo := ex_access, UpdatePending := True\<rparr>\<rparr>"

definition ex_state_pending :: Links where
  "ex_state_pending =
     \<lparr>defaultport = 80,
      links = [''a'' \<mapsto> ex_link_a, ''b'' \<mapsto> ex_link_pending],
      endpoints = [''b.example'' \<mapsto> ex_link_pending],
      clusteraddr = [Str_dotted [192, 168, 0, 12] \<mapsto> ex_link_pending]\<rparr>"

text \<open>
  An open stream that returns at most two bytes for each read, and the multiplexer of
  cluster A of scenario S1 (mesh address 192.168.0.11/24, service network 100.64.0.0/20)
  with the sample registry.
\<close>

definition ex_conn :: conn where
  "ex_conn = \<lparr>rd = [], wr = [], closed = False, rchunk = 1\<rparr>"

definition ex_mux :: Mux where
  "ex_mux =
     \<lparr>clusterAddr = \<lparr>IP = IPv4 192 168 0 11, Mask = [255, 255, 255, 0]\<rparr>,
      local_cidrs = [\<lparr>IP = [100, 64, 0, 0], Mask = [255, 255, 240, 0]\<rparr>],
      mux_links = ex_state_ab,
      mux_tun = \<lparr>tun_out = [], tun_broken = False\<rparr>\<rparr>"

text \<open>
  IPv4 packets from the peer 192.168.0.12 to the destination 100.64.16.\<open>d\<close>: a header of
  20 bytes, no payload.
\<close>

definition ex_packet :: "byte \<Rightarrow> byte list" where
  "ex_packet d =
     [0x45, 0, 0, 20, 0, 0, 0, 0, 64, 6, 0, 0, 192, 168, 0, 12, 100, 64, 16, d]"

text \<open>
  A listener that behaves as the library's do: the first \<^verbatim>\<open>Close\<close> succeeds, later ones
  fail. The state is whether it is closed. And the hellos of a peer at 192.168.0.12/24, of
  a peer at 192.168.0.13/24 and of an anonymous peer (\<^verbatim>\<open>::/0\<close>).
\<close>

definition ex_lclose :: "bool \<Rightarrow> error option \<times> bool" where
  "ex_lclose b = (if b then (Some ErrClosed, b) else (None, True))"

definition ex_tunnel :: TunnelConnection where
  "ex_tunnel = \<lparr>t_conn = ex_conn, clusterCIDR = None, remoteAddress = ''10.0.0.2:8088''\<rparr>"

definition ex_hello :: "byte \<Rightarrow> ConnectionHello" where
  "ex_hello d = \<lparr>hello_ClusterCIDR = \<lparr>IP = IPv4 192 168 0 d, Mask = [255, 255, 255, 0]\<rparr>\<rparr>"

definition ex_hello_anonymous :: ConnectionHello where
  "ex_hello_anonymous = \<lparr>hello_ClusterCIDR = \<lparr>IP = IPv6zero, Mask = replicate 16 0\<rparr>\<rparr>"

section \<open>Properties\<close>

subsection \<open>Ingress policy\<close>

lemma CIDRList_Contains_list_ex:
  "CIDRList_Contains cs ip = list_ex (\<lambda>c. IPNet_Contains c ip) cs"
  by (induction cs) simp_all

lemma denied_hit_list_ex:
  "denied_hit cs ip = list_ex (\<lambda>c. IPNet_Contains c ip) cs"
  by (induction cs) simp_all

text \<open>Where the destination passes the allowed list, the check is the rule of the
  specification; where it does not, the check admits the destination.\<close>

lemma IPRange_Contains_inside_allowed:
  "Allowed r = [] \<or> CIDRList_Contains (Allowed r) ip \<Longrightarrow>
   IPRange_Contains (Some r) ip = spec_admit (Allowed r) (Denied r) ip"
  by (auto simp: IPRange_Contains_def spec_admit_def CIDRList_IsSet_def
      CIDRList_Contains_list_ex denied_hit_list_ex)

lemma IPRange_Contains_outside_allowed:
  "Allowed r \<noteq> [] \<Longrightarrow> \<not> CIDRList_Contains (Allowed r) ip \<Longrightarrow> IPRange_Contains (Some r) ip"
  by (simp add: IPRange_Contains_def CIDRList_IsSet_def)

text \<open>
  C1. The claim: the ingress check admits a destination iff (Allowed is empty or some
  network of Allowed contains it) and no network of Denied contains it. With the policy
  of scenario S3 and the destination 10.0.0.1, which no allowed network contains,
  \<^verbatim>\<open>AllowIngress\<close> grants the packet, and the rule of the claim does not.
\<close>

theorem AllowIngress_grants_outside_allowed:
  "Ingress ex_link = Some ex_policy
   \<and> AllowIngress ex_link (IPv4 10 0 0 1) = (True, True)
   \<and> \<not> spec_admit (Allowed ex_policy) (Denied ex_policy) (IPv4 10 0 0 1)"
  by (simp add: ex_link_def ex_policy_def AllowIngress_def IPRange_IsSet_def
      IPRange_Contains_def spec_admit_def IPNet_Contains_def networkNumberAndMask_def
      To4_def IPv4_def v4InV6Prefix_def and_bytes_def CIDRList_IsSet_def)

subsection \<open>BroadcastAddress\<close>

lemma byte_and_eq_or_not: "(x AND m = x OR NOT m) = (m = (-1 :: byte))"
  by (auto simp: bit_eq_iff bit_simps)

lemma and_bytes_eq_highest:
  "length xs = length ms \<Longrightarrow>
   (and_bytes xs ms = map2 (\<lambda>x m. x OR NOT m) xs ms) = allFF ms"
  by (induction xs ms rule: list_induct2) (auto simp: and_bytes_def allFF_def byte_and_eq_or_not)

text \<open>
  Where address and mask have the same length, \<^verbatim>\<open>BroadcastAddress\<close> returns the address
  ANDed byte by byte with the mask, the base address of the network and the address of
  \<^verbatim>\<open>CIDRNet\<close>. That is the highest address of the network only for a mask of 0xff bytes.
\<close>

lemma BroadcastAddress_equal_length:
  assumes "length (IP n) = length (Mask n)"
  shows "BroadcastAddress n = Some (and_bytes (IP n) (Mask n))
       \<and> CIDRNet_IP n = BroadcastAddress n"
  using assms
  by (auto simp: BroadcastAddress_def CIDRNet_IP_def IP_Mask_def Let_def)

lemma BroadcastAddress_highest_iff:
  assumes "length (IP n) = length (Mask n)"
  shows "(BroadcastAddress n = Some (highest_address n)) = allFF (Mask n)"
  using assms and_bytes_eq_highest[of "IP n" "Mask n"]
  by (simp add: BroadcastAddress_def highest_address_def)

text \<open>
  C10. The claim: for every network, \<^verbatim>\<open>BroadcastAddress\<close> returns the address ANDed with
  the mask, the base address with all host bits zero, equal to the address of
  \<^verbatim>\<open>CIDRNet\<close>. The cluster address 192.168.0.12/24 as \<^verbatim>\<open>net.ParseCIDR\<close> and \<^verbatim>\<open>LinkFor\<close>
  build it has a 16-byte address and a 4-byte mask. There \<^verbatim>\<open>BroadcastAddress\<close> ANDs the
  mask into the first four of the 16 bytes, which are zero, and returns the address
  unchanged, host bits included; \<^verbatim>\<open>CIDRNet\<close> returns the base address 192.168.0.0.
\<close>

theorem BroadcastAddress_mixed_length_unmasked:
  "BroadcastAddress \<lparr>IP = IPv4 192 168 0 12, Mask = [255, 255, 255, 0]\<rparr> = Some (IPv4 192 168 0 12)
   \<and> CIDRNet_IP \<lparr>IP = IPv4 192 168 0 12, Mask = [255, 255, 255, 0]\<rparr> = Some [192, 168, 0, 0]
   \<and> BroadcastAddress \<lparr>IP = IPv4 192 168 0 12, Mask = [255, 255, 255, 0]\<rparr>
       \<noteq> CIDRNet_IP \<lparr>IP = IPv4 192 168 0 12, Mask = [255, 255, 255, 0]\<rparr>"
  by (simp add: BroadcastAddress_def CIDRNet_IP_def IP_Mask_def IPv4_def v4InV6Prefix_def
      and_bytes_def)

subsection \<open>The registry\<close>

lemma ex_LinkFor_b: "LinkFor ex_ext 80 ex_kl_b = Inr ex_link"
  by (simp add: LinkFor_def ex_ext_def ex_kl_b_def ex_link_def ParseIPRange_def ex_policy_def)

lemma ex_LinkFor_a: "LinkFor ex_ext 80 ex_kl_a = Inr ex_link_a"
  by (simp add: LinkFor_def ex_ext_def ex_kl_a_def ex_kl_b_def ex_link_a_def ex_link_def ParseIPRange_def)

lemma LinkFor_Name: "LinkFor ext dp klink = Inr l \<Longrightarrow> Name l = kl_Name klink"
  by (auto simp: LinkFor_def Let_def split: sum.splits option.splits if_splits prod.splits)

lemma keyed_NewLinks: "keyed (NewLinks dp)"
  by (simp add: keyed_def NewLinks_def)

lemma keyed_replaceLink: "keyed this \<Longrightarrow> keyed (snd (replaceLink this link))"
  by (simp add: keyed_def replaceLink_def)

lemma keyed_endpoints_del: "keyed this \<Longrightarrow> keyed (this\<lparr>endpoints := (endpoints this)(h := None)\<rparr>)"
  by (simp add: keyed_def)

lemma keyed_clusteraddr_del: "keyed this \<Longrightarrow> keyed (this\<lparr>clusteraddr := (clusteraddr this)(k := None)\<rparr>)"
  by (simp add: keyed_def)

lemma keyed_updateLink: "keyed this \<Longrightarrow> keyed (snd (updateLink ext this klink))"
  by (auto simp: updateLink_def Let_def split_beta keyed_replaceLink keyed_endpoints_del keyed_clusteraddr_del
      split: sum.splits option.splits)

lemma keyed_RemoveLink: "keyed this \<Longrightarrow> keyed (RemoveLink this name)"
  by (auto simp: RemoveLink_def keyed_def split: option.splits)

lemma keyed_LinkInfoUpdated: "keyed this \<Longrightarrow> keyed (snd (LinkInfoUpdated this name access dns))"
  by (auto simp: LinkInfoUpdated_def Let_def split_beta keyed_replaceLink split: option.splits)

lemma keyed_UpdateLinkInfo: "keyed this \<Longrightarrow> keyed (snd (UpdateLinkInfo this name access dns pending))"
  by (auto simp: UpdateLinkInfo_def Let_def split_beta keyed_replaceLink split: option.splits)

lemma keyed_apply_op: "keyed this \<Longrightarrow> keyed (apply_op ext this op)"
  by (cases op)
     (simp_all add: UpdateLink_def ReplaceLink_def keyed_updateLink keyed_replaceLink
        keyed_RemoveLink keyed_LinkInfoUpdated keyed_UpdateLinkInfo)

lemma keyed_run_ops: "keyed this \<Longrightarrow> keyed (run_ops ext this ops)"
  unfolding run_ops_def by (induction ops arbitrary: this) (simp_all add: keyed_apply_op)

lemma UpdateLink_accepts:
  assumes "LinkFor ext (defaultport this) klink = Inr l"
  shows "\<exists>l' this'. UpdateLink ext this klink = (Inr l', this')
          \<and> l' = l\<lparr>ForeignData := (case links this (kl_Name klink) of
                                       None \<Rightarrow> ForeignData l | Some old \<Rightarrow> ForeignData old)\<rparr>
          \<and> links this' = (links this)(kl_Name klink \<mapsto> l')
          \<and> endpoints this' (Host l) = Some l'
          \<and> clusteraddr this' (IP_String (IP (ClusterAddress l))) = Some l'"
  using assms LinkFor_Name[OF assms]
  by (auto simp: UpdateLink_def updateLink_def replaceLink_def Let_def split: option.splits)


text \<open>
  C2, as amended. After any sequence of registry operations every stored link sits under
  its own key in each of the three maps (so two links found under different hosts, or
  under different cluster addresses, differ there), and an update that parses is never
  rejected: \<^verbatim>\<open>UpdateLink\<close> returns the new link without error, stores it under its name
  and points the endpoint index and the cluster-address index at it, whatever link held
  those entries before.
\<close>

theorem registry_keyed_last_writer_wins:
  assumes "this = run_ops ext (NewLinks dp) ops"
  shows "(\<forall>n l. links this n = Some l \<longrightarrow> Name l = n)
       \<and> (\<forall>h l. endpoints this h = Some l \<longrightarrow> Host l = h)
       \<and> (\<forall>k l. clusteraddr this k = Some l \<longrightarrow> IP_String (IP (ClusterAddress l)) = k)
       \<and> (\<forall>klink l. LinkFor ext (defaultport this) klink = Inr l \<longrightarrow>
            (\<exists>l' this'. UpdateLink ext this klink = (Inr l', this')
               \<and> Name l' = kl_Name klink \<and> Host l' = Host l
               \<and> ClusterAddress l' = ClusterAddress l
               \<and> links this' = (links this)(kl_Name klink \<mapsto> l')
               \<and> endpoints this' (Host l) = Some l'
               \<and> clusteraddr this' (IP_String (IP (ClusterAddress l))) = Some l'))"
proof -
  have "keyed this"
    unfolding assms by (rule keyed_run_ops[OF keyed_NewLinks])
  then have keys: "(\<forall>n l. links this n = Some l \<longrightarrow> Name l = n)
       \<and> (\<forall>h l. endpoints this h = Some l \<longrightarrow> Host l = h)
       \<and> (\<forall>k l. clusteraddr this k = Some l \<longrightarrow> IP_String (IP (ClusterAddress l)) = k)"
    by (simp add: keyed_def)
  have upd: "\<exists>l' this'. UpdateLink ext this klink = (Inr l', this')
               \<and> Name l' = kl_Name klink \<and> Host l' = Host l
               \<and> ClusterAddress l' = ClusterAddress l
               \<and> links this' = (links this)(kl_Name klink \<mapsto> l')
               \<and> endpoints this' (Host l) = Some l'
               \<and> clusteraddr this' (IP_String (IP (ClusterAddress l))) = Some l'"
    if h: "LinkFor ext (defaultport this) klink = Inr l" for klink l
    using UpdateLink_accepts[OF h] LinkFor_Name[OF h] by auto
  from keys upd show ?thesis by blast
qed

lemma ex_IP_String: "IP_String (IPv4 192 168 0 12) = Str_dotted [192, 168, 0, 12]"
  by (simp add: IP_String_def To4_def IPv4_def v4InV6Prefix_def)

lemma ex_fields:
  "kl_Name ex_kl_a = ''a''" "kl_Name ex_kl_b = ''b''"
  "Name ex_link_a = ''a''" "Name ex_link = ''b''"
  "Host ex_link_a = ''b.example''" "Host ex_link = ''b.example''"
  "IP (ClusterAddress ex_link_a) = IPv4 192 168 0 12"
  "IP (ClusterAddress ex_link) = IPv4 192 168 0 12"
  by (simp_all add: ex_kl_a_def ex_kl_b_def ex_link_a_def ex_link_def)

lemma ex_UpdateLink_a: "UpdateLink ex_ext (NewLinks 80) ex_kl_a = (Inr ex_link_a, ex_state_a)"
  by (simp add: UpdateLink_def updateLink_def NewLinks_def ex_LinkFor_a replaceLink_def
      ex_state_a_def ex_fields ex_IP_String)

lemma ex_UpdateLink_b: "UpdateLink ex_ext ex_state_a ex_kl_b = (Inr ex_link, ex_state_ab)"
  by (simp add: UpdateLink_def updateLink_def ex_state_a_def ex_LinkFor_b replaceLink_def
      ex_state_ab_def ex_fields ex_IP_String)

lemma ex_run_a: "run_ops ex_ext (NewLinks 80) [OpUpdateLink ex_kl_a] = ex_state_a"
  by (simp add: run_ops_def ex_UpdateLink_a)

lemma ex_run_ab: "run_ops ex_ext (NewLinks 80) [OpUpdateLink ex_kl_a, OpUpdateLink ex_kl_b] = ex_state_ab"
  by (simp add: run_ops_def ex_UpdateLink_a ex_UpdateLink_b)

text \<open>
  The claim as stated fails: the code has no collision check. Two resources \<open>a\<close> and
  \<open>b\<close> with the same cluster address 192.168.0.12/24 and the same endpoint are both
  accepted, and the by-name map then holds two distinct links with equal cluster address
  and equal host.
\<close>

theorem registry_collision_counterexample:
  "UpdateLink ex_ext (run_ops ex_ext (NewLinks 80) [OpUpdateLink ex_kl_a]) ex_kl_b
     = (Inr ex_link, run_ops ex_ext (NewLinks 80) [OpUpdateLink ex_kl_a, OpUpdateLink ex_kl_b])
   \<and> links (run_ops ex_ext (NewLinks 80) [OpUpdateLink ex_kl_a, OpUpdateLink ex_kl_b]) ''a''
       = Some ex_link_a
   \<and> links (run_ops ex_ext (NewLinks 80) [OpUpdateLink ex_kl_a, OpUpdateLink ex_kl_b]) ''b''
       = Some ex_link
   \<and> ex_link_a \<noteq> ex_link
   \<and> IP (ClusterAddress ex_link_a) = IP (ClusterAddress ex_link)
   \<and> Host ex_link_a = Host ex_link"
  by (simp add: ex_run_a ex_run_ab ex_UpdateLink_b ex_fields)
     (simp add: ex_state_ab_def ex_link_a_def ex_link_def)

theorem registry_keyed_last_writer_wins_witness:
  "run_ops ex_ext (NewLinks 80) [OpUpdateLink ex_kl_a] = ex_state_a
   \<and> links ex_state_a ''a'' = Some ex_link_a \<and> Name ex_link_a = ''a''
   \<and> endpoints ex_state_a ''b.example'' = Some ex_link_a \<and> Host ex_link_a = ''b.example''
   \<and> LinkFor ex_ext (defaultport ex_state_a) ex_kl_b = Inr ex_link
   \<and> UpdateLink ex_ext ex_state_a ex_kl_b = (Inr ex_link, ex_state_ab)
   \<and> links ex_state_ab = (links ex_state_a)(''b'' \<mapsto> ex_link)
   \<and> endpoints ex_state_ab ''b.example'' = Some ex_link"
  using registry_keyed_last_writer_wins[of ex_state_a ex_ext 80 "[OpUpdateLink ex_kl_a]"]
  by (simp add: ex_run_a ex_UpdateLink_b ex_fields)
     (simp add: ex_state_a_def ex_state_ab_def ex_LinkFor_b)

text \<open>
  C9. When \<^verbatim>\<open>UpdateLink\<close> replaces the snapshot of a name that is present with a
  resource that parses, the new snapshot is the parsed link with the old snapshot's
  foreign data (access info, DNS info, pending flag), and the snapshots stored under all
  other names are unchanged.
\<close>

theorem UpdateLink_keeps_foreign_data:
  assumes "links this (kl_Name klink) = Some old"
    and "LinkFor ext (defaultport this) klink = Inr l"
  shows "\<exists>new this'. UpdateLink ext this klink = (Inr new, this')
           \<and> links this' (kl_Name klink) = Some new
           \<and> new = l\<lparr>ForeignData := ForeignData old\<rparr>
           \<and> ForeignData new = ForeignData old
           \<and> (\<forall>n. n \<noteq> kl_Name klink \<longrightarrow> links this' n = links this n)"
  using assms LinkFor_Name[OF assms(2)]
  by (auto simp: UpdateLink_def updateLink_def replaceLink_def Let_def)

lemma ex_fields_pending:
  "Name ex_link_pending = ''b''" "Host ex_link_pending = ''b.example''"
  "IP (ClusterAddress ex_link_pending) = IPv4 192 168 0 12"
  "ForeignData ex_link_pending = zero_ForeignData\<lparr>AccessInfo := ex_access, UpdatePending := True\<rparr>"
  "ForeignData ex_link = zero_ForeignData"
  by (simp_all add: ex_link_pending_def ex_link_def)

lemma ex_access_neq:
  "\<not> LinkAccessInfo_Equal (AccessInfo zero_ForeignData) ex_access"
  "\<not> LinkAccessInfo_Equal ex_access ex_access2"
  "LinkAccessInfo_Equal ex_access ex_access"
  by (simp_all add: LinkAccessInfo_Equal_def zero_ForeignData_def ex_access_def ex_access2_def)

lemma ex_run_pending:
  "run_ops ex_ext (NewLinks 80)
     [OpUpdateLink ex_kl_a, OpUpdateLink ex_kl_b, OpUpdateLinkInfo ''b'' (Some ex_access) None True]
   = ex_state_pending"
  by (simp add: run_ops_def ex_UpdateLink_a ex_UpdateLink_b)
     (simp add: UpdateLinkInfo_def ex_state_ab_def ex_fields ex_fields_pending ex_access_neq
        replaceLink_def ex_state_pending_def ex_link_pending_def ex_IP_String)

theorem UpdateLink_keeps_foreign_data_witness:
  "links ex_state_pending (kl_Name ex_kl_b) = Some ex_link_pending
   \<and> LinkFor ex_ext (defaultport ex_state_pending) ex_kl_b = Inr ex_link
   \<and> fst (UpdateLink ex_ext ex_state_pending ex_kl_b) = Inr ex_link_pending
   \<and> ForeignData ex_link_pending = zero_ForeignData\<lparr>AccessInfo := ex_access, UpdatePending := True\<rparr>
   \<and> links (snd (UpdateLink ex_ext ex_state_pending ex_kl_b)) ''b'' = Some ex_link_pending
   \<and> links (snd (UpdateLink ex_ext ex_state_pending ex_kl_b)) ''a'' = Some ex_link_a"
  using UpdateLink_keeps_foreign_data[of ex_state_pending ex_kl_b ex_link_pending ex_ext ex_link]
  by (auto simp: ex_fields ex_fields_pending ex_state_pending_def ex_LinkFor_b ex_link_pending_def)


text \<open>
  C8. In a registry reached by any run of operations, for a name that is present:
  \<^verbatim>\<open>UpdateLinkInfo\<close> with \<^verbatim>\<open>pending=false\<close> while the stored link is pending changes
  nothing, whatever values it is given; with \<^verbatim>\<open>pending=true\<close> a value that differs from
  the stored one replaces it, and the stored link is pending afterwards;
  \<^verbatim>\<open>LinkInfoUpdated\<close> leaves access and DNS info as they are and clears the pending flag
  exactly when an echoed value (access or DNS) equals the stored one.
\<close>

theorem foreign_info_two_phase:
  assumes reach: "this = run_ops ext (NewLinks dp) ops" and present: "links this name = Some old"
  shows "(UpdatePending (ForeignData old) \<longrightarrow>
            UpdateLinkInfo this name access1 dns1 False = ((Some old, False), this))
       \<and> (\<forall>a. access2 = Some a \<and> \<not> LinkAccessInfo_Equal (AccessInfo (ForeignData old)) a \<longrightarrow>
            (\<exists>new. links (snd (UpdateLinkInfo this name access2 dns2 True)) name = Some new
                   \<and> AccessInfo (ForeignData new) = a \<and> UpdatePending (ForeignData new)))
       \<and> (\<forall>d. dns2 = Some d \<and> \<not> LinkDNSInfo_Equal (DNSInfo (ForeignData old)) d \<longrightarrow>
            (\<exists>new. links (snd (UpdateLinkInfo this name access2 dns2 True)) name = Some new
                   \<and> DNSInfo (ForeignData new) = d \<and> UpdatePending (ForeignData new)))
       \<and> (\<exists>new. links (snd (LinkInfoUpdated this name access3 dns3)) name = Some new
              \<and> ForeignData new =
                  (ForeignData old)\<lparr>UpdatePending :=
                     UpdatePending (ForeignData old)
                     \<and> \<not> ((\<exists>a. access3 = Some a
                                 \<and> LinkAccessInfo_Equal (AccessInfo (ForeignData old)) a)
                            \<or> (\<exists>d. dns3 = Some d
                                   \<and> LinkDNSInfo_Equal (DNSInfo (ForeignData old)) d))\<rparr>)"
proof -
  have "keyed this"
    unfolding reach by (rule keyed_run_ops[OF keyed_NewLinks])
  with present have name: "Name old = name"
    by (simp add: keyed_def)
  note assms = present name
  show ?thesis
  proof (intro conjI)
  show "UpdatePending (ForeignData old) \<longrightarrow>
          UpdateLinkInfo this name access1 dns1 False = ((Some old, False), this)"
    using assms(1) by (auto simp: UpdateLinkInfo_def split: option.splits)
next
  show "\<forall>a. access2 = Some a \<and> \<not> LinkAccessInfo_Equal (AccessInfo (ForeignData old)) a \<longrightarrow>
          (\<exists>new. links (snd (UpdateLinkInfo this name access2 dns2 True)) name = Some new
                 \<and> AccessInfo (ForeignData new) = a \<and> UpdatePending (ForeignData new))"
    using assms by (auto simp: UpdateLinkInfo_def replaceLink_def split: option.splits)
next
  show "\<forall>d. dns2 = Some d \<and> \<not> LinkDNSInfo_Equal (DNSInfo (ForeignData old)) d \<longrightarrow>
          (\<exists>new. links (snd (UpdateLinkInfo this name access2 dns2 True)) name = Some new
                 \<and> DNSInfo (ForeignData new) = d \<and> UpdatePending (ForeignData new))"
    using assms by (auto simp: UpdateLinkInfo_def replaceLink_def split: option.splits)
next
  show "\<exists>new. links (snd (LinkInfoUpdated this name access3 dns3)) name = Some new
              \<and> ForeignData new =
                  (ForeignData old)\<lparr>UpdatePending :=
                     UpdatePending (ForeignData old)
                     \<and> \<not> ((\<exists>a. access3 = Some a
                                 \<and> LinkAccessInfo_Equal (AccessInfo (ForeignData old)) a)
                            \<or> (\<exists>d. dns3 = Some d
                                   \<and> LinkDNSInfo_Equal (DNSInfo (ForeignData old)) d))\<rparr>"
    using assms
    by (auto simp: LinkInfoUpdated_def replaceLink_def set_pending_def split: option.splits)
  qed
qed

theorem foreign_info_two_phase_witness:
  "ex_state_pending
     = run_ops ex_ext (NewLinks 80)
         [OpUpdateLink ex_kl_a, OpUpdateLink ex_kl_b,
          OpUpdateLinkInfo ''b'' (Some ex_access) None True]
   \<and> links ex_state_pending ''b'' = Some ex_link_pending
   \<and> UpdatePending (ForeignData ex_link_pending)
   \<and> AccessInfo (ForeignData ex_link_pending) = ex_access
   \<and> UpdateLinkInfo ex_state_pending ''b'' (Some ex_access2) None False
        = ((Some ex_link_pending, False), ex_state_pending)
   \<and> map_option ForeignData
        (links (snd (UpdateLinkInfo ex_state_pending ''b'' (Some ex_access2) None True)) ''b'')
        = Some (zero_ForeignData\<lparr>AccessInfo := ex_access2, UpdatePending := True\<rparr>)
   \<and> map_option ForeignData
        (links (snd (LinkInfoUpdated ex_state_pending ''b'' (Some ex_access) None)) ''b'')
        = Some (zero_ForeignData\<lparr>AccessInfo := ex_access, UpdatePending := False\<rparr>)
   \<and> map_option ForeignData
        (links (snd (LinkInfoUpdated ex_state_pending ''b'' (Some ex_access2) None)) ''b'')
        = Some (zero_ForeignData\<lparr>AccessInfo := ex_access, UpdatePending := True\<rparr>)"
  using foreign_info_two_phase[of ex_state_pending ex_ext 80
          "[OpUpdateLink ex_kl_a, OpUpdateLink ex_kl_b,
            OpUpdateLinkInfo ''b'' (Some ex_access) None True]"
          "''b''" ex_link_pending
          "Some ex_access2" None "Some ex_access2" None "Some ex_access" None]
  by (simp add: ex_fields_pending ex_access_neq ex_run_pending)
     (simp add: ex_state_pending_def UpdateLinkInfo_def LinkInfoUpdated_def replaceLink_def
        ex_fields_pending ex_access_neq set_pending_def)

subsection \<open>Frames\<close>

lemma read_enough:
  "\<not> closed c \<Longrightarrow> length got \<le> len \<Longrightarrow> len - length got \<le> length (rd c) \<Longrightarrow>
   read c len got
     = (None, got @ take (len - length got) (rd c), c\<lparr>rd := drop (len - length got) (rd c)\<rparr>)"
proof (induction c len got rule: read.induct)
  case (1 c len got)
  show ?case
  proof (cases "length got < len")
    case False
    with 1(3) show ?thesis by (simp add: read.simps)
  next
    case True
    define k where "k = len - length got"
    define n where "n = min (Suc (rchunk c)) (min k (length (rd c)))"
    from True 1(4) have kpos: "0 < k" "k \<le> length (rd c)" "rd c \<noteq> []"
      by (auto simp: k_def)
    then have n: "0 < n" "n \<le> k" by (auto simp: n_def)
    let ?c' = "c\<lparr>rd := drop n (rd c)\<rparr>"
    from 1(2) kpos have r: "conn_Read c (len - length got) = Inr (take n (rd c), ?c')"
      by (simp add: conn_Read_def Let_def k_def n_def)
    have len_take: "length (take n (rd c)) = n"
      using n kpos by simp
    have a: "\<not> closed ?c'" using 1(2) by simp
    have b: "length (got @ take n (rd c)) \<le> len"
      using n True len_take by (simp add: k_def)
    have c: "len - length (got @ take n (rd c)) \<le> length (rd ?c')"
      using n kpos len_take by (simp add: k_def)
    have rest: "len - length (got @ take n (rd c)) = k - n"
      using len_take by (simp add: k_def)
    have tk: "take n (rd c) @ take (k - n) (drop n (rd c)) = take k (rd c)"
      using n by (metis le_add_diff_inverse take_add)
    have dk: "drop (k - n) (drop n (rd c)) = drop k (rd c)"
      using n by simp
    have "read c len got = read ?c' len (got @ take n (rd c))"
      using True r by (subst read.simps) simp
    also have "\<dots> = (None, (got @ take n (rd c)) @ take (k - n) (rd ?c'),
                       ?c'\<lparr>rd := drop (k - n) (rd ?c')\<rparr>)"
      using 1(1)[OF True r refl a b c] rest by simp
    also have "\<dots> = (None, got @ take k (rd c), c\<lparr>rd := drop k (rd c)\<rparr>)"
      using tk dk by simp
    finally show ?thesis by (simp add: k_def)
  qed
qed

lemma read_prefix:
  "\<not> closed c \<Longrightarrow> rd c = bs @ rest \<Longrightarrow> read c (length bs) [] = (None, bs, c\<lparr>rd := rest\<rparr>)"
  using read_enough[of c "[]" "length bs"] by simp

lemma read_at_end:
  "\<not> closed c \<Longrightarrow> rd c = [] \<Longrightarrow> 0 < len \<Longrightarrow> read c len [] = (Some EOF, [], c)"
  by (subst read.simps) (simp add: conn_Read_def)

lemma write_data_open:
  "\<not> closed c \<Longrightarrow> write_data c data = (None, c\<lparr>wr := wr c @ data\<rparr>)"
proof (cases "data = []")
  case True
  then show ?thesis by (subst write_data.simps) simp
next
  case False
  assume "\<not> closed c"
  with False show ?thesis
    by (subst write_data.simps) (simp add: conn_Write_def write_data.simps[of _ "[]"])
qed

lemma NtoHs_HtoNs: "NtoHs (HtoNs w) = Some w"
proof -
  have "push_bit 8 (ucast (ucast (drop_bit 8 w) :: byte)) OR ucast (ucast w :: byte) = w"
    by (rule bit_word_eqI) (auto simp: bit_simps)
  then show ?thesis by (simp add: HtoNs_def)
qed

lemma unat_of_nat_16: "n \<le> 65535 \<Longrightarrow> unat (of_nat n :: 16 word) = n"
  by (simp add: unsigned_of_nat take_bit_nat_eq_self)

lemma WritePacket_open:
  "\<not> closed c \<Longrightarrow> length p \<le> 65535 \<Longrightarrow>
   WritePacket c ty p = (None, c\<lparr>wr := wr c @ frame ty p\<rparr>)"
  by (simp add: WritePacket_def write_data_open frame_def Let_def)

lemma ReadPacket_header:
  assumes "\<not> closed c" and "rd c = b0 # b1 # ty # rest"
  shows "ReadPacket c data =
     (case NtoHs [b0, b1] of
        None \<Rightarrow> (0, 0, Some PanicIndexOutOfRange, data, c\<lparr>rd := rest\<rparr>)
      | Some len \<Rightarrow>
          if unat len > length data
          then (0, 0, Some (BufferTooSmall (length data) (unat len)), data, c\<lparr>rd := rest\<rparr>)
          else (case read (c\<lparr>rd := rest\<rparr>) (unat len) [] of
                  (err, got, c2) \<Rightarrow> (int (unat len), ty, err, got @ drop (length got) data, c2)))"
proof -
  have "read c (length [b0, b1, ty]) [] = (None, [b0, b1, ty], c\<lparr>rd := rest\<rparr>)"
    by (rule read_prefix) (use assms in simp_all)
  then have "read c 3 [] = (None, [b0, b1, ty], c\<lparr>rd := rest\<rparr>)"
    by (simp add: numeral_3_eq_3)
  then show ?thesis by (simp add: ReadPacket_def)
qed

lemma ReadPacket_frame:
  assumes "\<not> closed c" and "rd c = frame ty p @ rest"
    and "length p \<le> length data" and "length p \<le> 65535"
  shows "ReadPacket c data
           = (int (length p), ty, None, p @ drop (length p) data, c\<lparr>rd := rest\<rparr>)"
proof -
  obtain b0 b1 where h: "HtoNs (of_nat (length p)) = [b0, b1]"
    by (simp add: HtoNs_def)
  with assms(2) have rdc: "rd c = b0 # b1 # ty # (p @ rest)"
    by (simp add: frame_def)
  from h NtoHs_HtoNs[of "of_nat (length p)"]
  have n: "push_bit 8 (ucast b0) OR ucast b1 = (of_nat (length p) :: 16 word)"
    by simp
  have r: "read (c\<lparr>rd := p @ rest\<rparr>) (length p) [] = (None, p, c\<lparr>rd := rest\<rparr>)"
    using read_prefix[of "c\<lparr>rd := p @ rest\<rparr>" p rest] assms(1) by simp
  show ?thesis
    using assms(3,4) r
    by (simp add: ReadPacket_header[OF assms(1) rdc] n unat_of_nat_16)
qed

text \<open>
  C5. For every type byte and every payload of at most 17,000 bytes, \<^verbatim>\<open>WritePacket\<close> on
  an open stream appends exactly the frame: length as big-endian u16, type, payload. A
  \<^verbatim>\<open>ReadPacket\<close> with a buffer of \<^verbatim>\<open>BufferSize\<close> bytes on a stream that delivers these
  bytes (in reads as short as the stream likes) returns the payload's length and the type
  without error, leaves the payload in the first bytes of the buffer and the stream just
  behind the frame.
\<close>

theorem frame_round_trip:
  assumes "length p \<le> 17000" and "\<not> closed w" and "\<not> closed r"
    and "length data = BufferSize"
    and "rd r = HtoNs (of_nat (length p)) @ [ty] @ p @ rest"
  shows "WritePacket w ty p = (None, w\<lparr>wr := wr w @ HtoNs (of_nat (length p)) @ [ty] @ p\<rparr>)
       \<and> ReadPacket r data
           = (int (length p), ty, None, p @ drop (length p) data, r\<lparr>rd := rest\<rparr>)
       \<and> take (length p) (p @ drop (length p) data) = p"
proof -
  from assms(1) have le: "length p \<le> 65535" by simp
  from assms(1,4) have fit: "length p \<le> length data" by (simp add: BufferSize_def)
  from assms(5) have rdr: "rd r = frame ty p @ rest" by (simp add: frame_def)
  show ?thesis
    using WritePacket_open[OF assms(2) le, of ty] ReadPacket_frame[OF assms(3) rdr fit le]
    by (simp add: frame_def)
qed

theorem frame_round_trip_witness:
  "length [1, 2, 3 :: byte] \<le> 17000 \<and> \<not> closed ex_conn
   \<and> WritePacket ex_conn 0 [1, 2, 3] = (None, ex_conn\<lparr>wr := [0, 3, 0, 1, 2, 3]\<rparr>)
   \<and> ReadPacket (ex_conn\<lparr>rd := [0, 3, 0, 1, 2, 3, 9, 9]\<rparr>) (replicate BufferSize 0)
       = (3, 0, None, [1, 2, 3] @ drop 3 (replicate BufferSize 0), ex_conn\<lparr>rd := [9, 9]\<rparr>)"
  using frame_round_trip[of "[1, 2, 3]" ex_conn "ex_conn\<lparr>rd := [0, 3, 0, 1, 2, 3, 9, 9]\<rparr>"
          "replicate BufferSize 0" 0 "[9, 9]"]
  by (simp add: ex_conn_def HtoNs_def)

text \<open>
  C6. When the declared length of an incoming frame exceeds the 17,000 bytes of the
  receiver's buffer, \<^verbatim>\<open>ReadPacket\<close> returns the buffer-too-small error with length 0
  and the buffer untouched, and the read loop ends there without a write to the tun
  device. \<^verbatim>\<open>WritePacket\<close> with a payload of more than 65,535 bytes returns an error and
  leaves the stream as it was: no byte is written.
\<close>

theorem oversize_frames_fatal:
  assumes "\<not> closed c" and "rd c = b0 # b1 # ty # rest"
    and "NtoHs [b0, b1] = Some len" and "unat len > 17000"
    and "length data = BufferSize" and "length p > 65535"
  shows "ReadPacket c data
           = (0, 0, Some (BufferTooSmall BufferSize (unat len)), data, c\<lparr>rd := rest\<rparr>)
       \<and> serve mux c data = (EOF, mux, c\<lparr>rd := rest\<rparr>)
       \<and> WritePacket w ty' p = (Some (PacketTooLarge (length p)), w)"
proof -
  from assms(4,5) have big: "unat len > length data" by (simp add: BufferSize_def)
  have rp: "ReadPacket c data
           = (0, 0, Some (BufferTooSmall BufferSize (unat len)), data, c\<lparr>rd := rest\<rparr>)"
    using ReadPacket_header[OF assms(1,2), of data] assms(3,5) big
    by (simp del: NtoHs.simps)
  have sv: "serve mux c data = (EOF, mux, c\<lparr>rd := rest\<rparr>)"
    by (subst serve.simps) (simp add: rp)
  have wp: "WritePacket w ty' p = (Some (PacketTooLarge (length p)), w)"
    using assms(6) by (simp add: WritePacket_def)
  from rp sv wp show ?thesis by simp
qed

theorem oversize_frames_fatal_witness:
  "\<not> closed ex_conn \<and> NtoHs [0x42, 0x69] = Some 17001 \<and> unat (17001 :: 16 word) > 17000
   \<and> length (replicate 65536 (0 :: byte)) > 65535
   \<and> ReadPacket (ex_conn\<lparr>rd := [0x42, 0x69, 0, 1, 2, 3]\<rparr>) (replicate BufferSize 0)
       = (0, 0, Some (BufferTooSmall BufferSize 17001), replicate BufferSize 0,
          ex_conn\<lparr>rd := [1, 2, 3]\<rparr>)
   \<and> serve ex_mux (ex_conn\<lparr>rd := [0x42, 0x69, 0, 1, 2, 3]\<rparr>) (replicate BufferSize 0)
       = (EOF, ex_mux, ex_conn\<lparr>rd := [1, 2, 3]\<rparr>)
   \<and> WritePacket ex_conn 0 (replicate 65536 0)
       = (Some (PacketTooLarge 65536), ex_conn)"
  using oversize_frames_fatal[of "ex_conn\<lparr>rd := [0x42, 0x69, 0, 1, 2, 3]\<rparr>" "0x42" "0x69" 0
          "[1, 2, 3]" 17001 "replicate BufferSize 0" "replicate 65536 0" ex_mux ex_conn 0]
  by (simp add: ex_conn_def)

subsection \<open>The read loop\<close>

lemma ingress_pass_tun [simp]: "ingress_pass (mux\<lparr>mux_tun := t\<rparr>) p = ingress_pass mux p"
  by (simp add: ingress_pass_def cong: option.case_cong prod.case_cong if_cong)

lemma delivered_tun [simp]: "delivered (mux\<lparr>mux_tun := t\<rparr>) fs = delivered mux fs"
  by (simp add: delivered_def)

lemma serve_end:
  "\<not> closed c \<Longrightarrow> rd c = [] \<Longrightarrow> serve mux c buffer = (EOF, mux, c)"
  by (subst serve.simps) (simp add: ReadPacket_def read_at_end)

lemma serve_oversize:
  assumes "\<not> closed c" and "rd c = b0 # b1 # ty # rest"
    and "NtoHs [b0, b1] = Some len" and "unat len > length buffer"
  shows "serve mux c buffer = (EOF, mux, c\<lparr>rd := rest\<rparr>)"
  using ReadPacket_header[OF assms(1,2), of buffer] assms(3,4)
  by (subst serve.simps) (simp del: NtoHs.simps)

lemma serve_frame:
  assumes "\<not> closed c" and "rd c = frame ty p @ rest" and "length p \<le> length buffer"
    and "length p \<le> 65535"
  shows "serve mux c buffer =
     (if p = [] \<or> ty \<noteq> PACKET_TYPE_DATA \<or> \<not> ingress_pass mux p
      then serve mux (c\<lparr>rd := rest\<rparr>) (p @ drop (length p) buffer)
      else if tun_broken (mux_tun mux) then (TunWriteFailed, mux, c\<lparr>rd := rest\<rparr>)
      else serve (mux\<lparr>mux_tun := (mux_tun mux)\<lparr>tun_out := tun_out (mux_tun mux) @ [p]\<rparr>\<rparr>)
             (c\<lparr>rd := rest\<rparr>) (p @ drop (length p) buffer))"
  by (subst serve.simps) (auto simp: ReadPacket_frame[OF assms] tun_Write_def)

lemma serve_stream:
  "\<not> closed c \<Longrightarrow> \<not> tun_broken (mux_tun mux) \<Longrightarrow> length buffer = BufferSize \<Longrightarrow>
   list_all fits fs \<Longrightarrow> rd c = encode fs @ rest \<Longrightarrow>
   \<exists>buffer'. length buffer' = BufferSize \<and>
     serve mux c buffer
       = serve (mux\<lparr>mux_tun := (mux_tun mux)\<lparr>tun_out := tun_out (mux_tun mux) @ delivered mux fs\<rparr>\<rparr>)
           (c\<lparr>rd := rest\<rparr>) buffer'"
proof (induction fs arbitrary: c mux buffer)
  case Nil
  then have "c\<lparr>rd := rest\<rparr> = c" by (cases c) (simp add: encode_def)
  with Nil(3) show ?case by (auto simp: delivered_def)
next
  case (Cons f fs)
  obtain ty p where f: "f = (ty, p)" by (cases f)
  from Cons.prems(4) f have fit: "length p \<le> BufferSize"
    by (simp add: fits_def)
  from Cons.prems(4) have fits: "list_all fits fs"
    by simp
  from fit Cons.prems(3) have fit': "length p \<le> length buffer" "length p \<le> 65535"
    by (simp_all add: BufferSize_def)
  from Cons.prems(5) f have rdc: "rd c = frame ty p @ (encode fs @ rest)"
    by (simp add: encode_def)
  let ?c = "c\<lparr>rd := encode fs @ rest\<rparr>"
  let ?b = "p @ drop (length p) buffer"
  have open': "\<not> closed ?c" using Cons.prems(1) by simp
  have lb: "length ?b = BufferSize" using fit' Cons.prems(3) by simp
  have rd': "rd ?c = encode fs @ rest" by simp
  show ?case
  proof (cases "p = [] \<or> ty \<noteq> PACKET_TYPE_DATA \<or> \<not> ingress_pass mux p")
    case True
    then have d: "delivered mux (f # fs) = delivered mux fs"
      using f by (auto simp: delivered_def)
    have step: "serve mux c buffer = serve mux ?c ?b"
      using serve_frame[OF Cons.prems(1) rdc fit'] True by simp
    from Cons.IH[OF open' Cons.prems(2) lb fits rd'] step d show ?thesis
      by auto
  next
    case False
    then have d: "delivered mux (f # fs) = p # delivered mux fs"
      using f by (auto simp: delivered_def)
    let ?m = "mux\<lparr>mux_tun := (mux_tun mux)\<lparr>tun_out := tun_out (mux_tun mux) @ [p]\<rparr>\<rparr>"
    have nb: "\<not> tun_broken (mux_tun ?m)" using Cons.prems(2) by simp
    have step: "serve mux c buffer = serve ?m ?c ?b"
      using serve_frame[OF Cons.prems(1) rdc fit'] False Cons.prems(2) by simp
    from Cons.IH[OF open' nb lb fits rd'] step d show ?thesis
      by auto
  qed
qed

text \<open>
  C7, as amended. For every received frame whose type is not DATA and whose declared
  length is at most the 17,000 bytes of the buffer, the read loop consumes the whole frame
  and goes on with the bytes behind it, writing nothing to the tun device. On a stream of
  frames that fit the buffer, with such a frame anywhere in it, the loop runs to the end of
  the stream, and the tun device receives the admitted DATA payloads from before and from
  after that frame in their order of arrival.
\<close>

theorem unknown_frames_skipped:
  assumes "\<not> closed c" and "\<not> tun_broken (mux_tun mux)" and "length buffer = BufferSize"
    and "ty \<noteq> PACKET_TYPE_DATA" and "length p \<le> BufferSize"
    and "list_all fits pre" and "list_all fits post"
    and "rd c = encode (pre @ [(ty, p)] @ post)"
    and "\<not> closed c2" and "rd c2 = frame ty p @ rest"
  shows "serve mux c2 buffer = serve mux (c2\<lparr>rd := rest\<rparr>) (p @ drop (length p) buffer)
       \<and> serve mux c buffer
           = (EOF,
              mux\<lparr>mux_tun := (mux_tun mux)\<lparr>tun_out :=
                     tun_out (mux_tun mux) @ delivered mux pre @ delivered mux post\<rparr>\<rparr>,
              c\<lparr>rd := []\<rparr>)"
proof -
  from assms(3,5) have fit: "length p \<le> length buffer" "length p \<le> 65535"
    by (simp_all add: BufferSize_def)
  have step: "serve mux c2 buffer = serve mux (c2\<lparr>rd := rest\<rparr>) (p @ drop (length p) buffer)"
    using serve_frame[OF assms(9,10) fit] assms(4) by simp
  from assms(5,6,7) have all: "list_all fits (pre @ [(ty, p)] @ post)"
    by (simp add: fits_def)
  from assms(8) have rdc: "rd c = encode (pre @ [(ty, p)] @ post) @ []"
    by simp
  have d: "delivered mux (pre @ [(ty, p)] @ post) = delivered mux pre @ delivered mux post"
    using assms(4) by (simp add: delivered_def)
  from serve_stream[OF assms(1,2,3) all rdc] obtain b' where
    "serve mux c buffer
       = serve (mux\<lparr>mux_tun := (mux_tun mux)\<lparr>tun_out :=
                  tun_out (mux_tun mux) @ delivered mux pre @ delivered mux post\<rparr>\<rparr>)
           (c\<lparr>rd := []\<rparr>) b'"
    unfolding d by blast
  also have "\<dots> = (EOF,
              mux\<lparr>mux_tun := (mux_tun mux)\<lparr>tun_out :=
                     tun_out (mux_tun mux) @ delivered mux pre @ delivered mux post\<rparr>\<rparr>,
              c\<lparr>rd := []\<rparr>)"
    using assms(1) by (intro serve_end) simp_all
  finally show ?thesis using step by simp
qed


lemma ex_header:
  "ipv4_ParseHeader (ex_packet d) = Some \<lparr>Src = IPv4 192 168 0 12, Dst = IPv4 100 64 16 d\<rparr>"
  by (simp add: ipv4_ParseHeader_def ex_packet_def)

lemma ex_src_in_mesh: "IPNet_Contains (clusterAddr ex_mux) (IPv4 192 168 0 12)"
  by (simp add: ex_mux_def IPNet_Contains_def networkNumberAndMask_def To4_def IPv4_def
      v4InV6Prefix_def and_bytes_def)

lemma ex_link_lookup: "GetLinkForClusterAddress (mux_links ex_mux) (IPv4 192 168 0 12) = Some ex_link"
  by (simp add: GetLinkForClusterAddress_def ex_IP_String ex_mux_def ex_state_ab_def)

lemma ex_allow:
  "AllowIngress ex_link (IPv4 100 64 16 3) = (True, True)"
  "AllowIngress ex_link (IPv4 100 64 16 4) = (True, True)"
  "AllowIngress ex_link (IPv4 100 64 16 5) = (False, True)"
  by (simp_all add: ex_link_def ex_policy_def AllowIngress_def IPRange_IsSet_def
      IPRange_Contains_def IPNet_Contains_def networkNumberAndMask_def
      To4_def IPv4_def v4InV6Prefix_def and_bytes_def CIDRList_IsSet_def)

lemma ex_vers: "drop_bit 4 (hd (ex_packet d)) = 4"
  by (simp add: ex_packet_def)

lemma ex_ingress_pass:
  "ingress_pass ex_mux (ex_packet 3)" "ingress_pass ex_mux (ex_packet 4)"
  "\<not> ingress_pass ex_mux (ex_packet 5)"
  by (simp_all add: ingress_pass_def ex_vers ex_header ex_src_in_mesh ex_link_lookup ex_allow)

lemma ex_packet_length: "length (ex_packet d) = 20" "ex_packet d \<noteq> []"
  by (simp_all add: ex_packet_def)

theorem unknown_frames_skipped_witness:
  "\<not> closed ex_conn \<and> \<not> tun_broken (mux_tun ex_mux)
   \<and> (7 :: byte) \<noteq> PACKET_TYPE_DATA \<and> length [0, 0, 0, 0 :: byte] \<le> BufferSize
   \<and> serve ex_mux
        (ex_conn\<lparr>rd := encode [(0, ex_packet 3), (7, [0, 0, 0, 0]), (0, ex_packet 5), (0, ex_packet 4)]\<rparr>)
        (replicate BufferSize 0)
       = (EOF, ex_mux\<lparr>mux_tun := \<lparr>tun_out = [ex_packet 3, ex_packet 4], tun_broken = False\<rparr>\<rparr>,
          ex_conn)"
  using unknown_frames_skipped[of
          "ex_conn\<lparr>rd := encode [(0, ex_packet 3), (7, [0, 0, 0, 0]), (0, ex_packet 5), (0, ex_packet 4)]\<rparr>"
          ex_mux "replicate BufferSize 0" 7 "[0, 0, 0, 0]" "[(0, ex_packet 3)]"
          "[(0, ex_packet 5), (0, ex_packet 4)]"
          "ex_conn\<lparr>rd := frame 7 [0, 0, 0, 0]\<rparr>" "[]"]
  by (simp add: fits_def ex_packet_length BufferSize_def PACKET_TYPE_DATA_def delivered_def
        ex_ingress_pass)
     (simp add: ex_conn_def ex_mux_def)

text \<open>
  The claim as stated, for every frame that is not DATA, fails for a frame that declares
  more than 17,000 bytes: the loop returns at its header, with the frame's payload and the
  DATA frame behind it still unread, and that DATA frame never reaches the tun device.
\<close>

theorem oversize_unknown_frame_counterexample:
  "(7 :: byte) \<noteq> PACKET_TYPE_DATA
   \<and> ingress_pass ex_mux (ex_packet 4)
   \<and> serve ex_mux
        (ex_conn\<lparr>rd := encode [(0, ex_packet 3), (7, replicate 17001 0), (0, ex_packet 4)]\<rparr>)
        (replicate BufferSize 0)
       = (EOF, ex_mux\<lparr>mux_tun := \<lparr>tun_out = [ex_packet 3], tun_broken = False\<rparr>\<rparr>,
          ex_conn\<lparr>rd := replicate 17001 0 @ frame 0 (ex_packet 4)\<rparr>)"
proof -
  let ?rest = "replicate 17001 0 @ frame 0 (ex_packet 4)"
  let ?m = "ex_mux\<lparr>mux_tun := \<lparr>tun_out = [ex_packet 3], tun_broken = False\<rparr>\<rparr>"
  let ?b = "ex_packet 3 @ drop 20 (replicate BufferSize 0)"
  have enc: "encode [(0, ex_packet 3), (7, replicate 17001 0), (0, ex_packet 4)]
           = frame 0 (ex_packet 3) @ (0x42 # 0x69 # 7 # ?rest)"
    by (simp add: encode_def frame_def[of 7] HtoNs_def)
  have s1: "serve ex_mux (ex_conn\<lparr>rd := frame 0 (ex_packet 3) @ (0x42 # 0x69 # 7 # ?rest)\<rparr>)
              (replicate BufferSize 0)
           = serve ?m (ex_conn\<lparr>rd := 0x42 # 0x69 # 7 # ?rest\<rparr>) ?b"
    using serve_frame[of "ex_conn\<lparr>rd := frame 0 (ex_packet 3) @ (0x42 # 0x69 # 7 # ?rest)\<rparr>"
            0 "ex_packet 3" "0x42 # 0x69 # 7 # ?rest" "replicate BufferSize 0" ex_mux]
    by (simp add: ex_conn_def ex_packet_length BufferSize_def PACKET_TYPE_DATA_def ex_ingress_pass)
       (simp add: ex_mux_def)
  have s2: "serve ?m (ex_conn\<lparr>rd := 0x42 # 0x69 # 7 # ?rest\<rparr>) ?b
           = (EOF, ?m, ex_conn\<lparr>rd := ?rest\<rparr>)"
    using serve_oversize[of "ex_conn\<lparr>rd := 0x42 # 0x69 # 7 # ?rest\<rparr>" "0x42" "0x69" 7 ?rest
            17001 ?b ?m]
    by (simp add: ex_conn_def ex_packet_length BufferSize_def)
  from s1 s2 show ?thesis
    by (simp add: enc ex_ingress_pass PACKET_TYPE_DATA_def)
qed

subsection \<open>Close\<close>

lemma once_Close_again:
  "once_done oc \<Longrightarrow> onceCloseListener_Close lclose oc = (closeErr oc, oc)"
  by (simp add: onceCloseListener_Close_def)

lemma once_Close_done:
  "once_done (snd (onceCloseListener_Close lclose oc))"
  "closeErr (snd (onceCloseListener_Close lclose oc)) = fst (onceCloseListener_Close lclose oc)"
  by (simp_all add: onceCloseListener_Close_def onceCloseListener_close_def Let_def split: prod.splits)

lemma once_close_times_done:
  "once_done oc \<Longrightarrow>
   close_times (onceCloseListener_Close lclose) n oc = replicate n (closeErr oc)
   \<and> close_state (onceCloseListener_Close lclose) n oc = oc"
  by (induction n) (simp_all add: once_Close_again)

lemma tunnel_close_times:
  "close_times TunnelConnection_Close n t = close_times conn_Close n (t_conn t)"
  by (induction n arbitrary: t) (simp_all add: TunnelConnection_Close_def split: prod.splits)

lemma conn_close_times_closed:
  "closed c \<Longrightarrow> close_times conn_Close n c = replicate n (Some ErrClosed)"
  by (induction n) (simp_all add: conn_Close_def)

lemma once_Close_result:
  "onceCloseListener_Close lclose oc =
     (if once_done oc then (closeErr oc, oc)
      else (fst (lclose (Listener oc)),
            oc\<lparr>Listener := snd (lclose (Listener oc)),
               closeErr := fst (lclose (Listener oc)),
               once_done := True\<rparr>))"
  by (simp add: onceCloseListener_Close_def onceCloseListener_close_def Let_def split: prod.splits)

text \<open>
  C3, as amended. \<^verbatim>\<open>Close\<close> on a listener may be called any number of times: every call
  returns the error of the first call, which is the error of the wrapped listener's
  \<^verbatim>\<open>Close\<close> when the listener was not closed before, and the wrapped listener is closed
  once: after any number of calls its state is the state after one call of its \<^verbatim>\<open>Close\<close>,
  and a counter of those calls stands at one. \<^verbatim>\<open>Close\<close> on a tunnel connection hands
  every call to the \<^verbatim>\<open>Close\<close> of its stream and returns what that call returns: the
  stream's result for the first call, the closed-connection error for every later one.
\<close>

theorem close_idempotence:
  "close_times (onceCloseListener_Close lclose) (Suc n) oc
     = replicate (Suc n) (fst (onceCloseListener_Close lclose oc))
   \<and> close_state (onceCloseListener_Close lclose) (Suc n) oc
     = snd (onceCloseListener_Close lclose oc)
   \<and> close_times (onceCloseListener_Close lclose) (Suc n) oc
     = replicate (Suc n) (if once_done oc then closeErr oc else fst (lclose (Listener oc)))
   \<and> close_state (onceCloseListener_Close lclose) (Suc n) oc
     = (if once_done oc then oc
        else oc\<lparr>Listener := snd (lclose (Listener oc)),
                closeErr := fst (lclose (Listener oc)),
                once_done := True\<rparr>)
   \<and> snd (Listener (close_state (onceCloseListener_Close (counted lclose)) (Suc n)
                       \<lparr>Listener = (l, 0), once_done = False, closeErr = e0\<rparr>)) = 1
   \<and> close_times TunnelConnection_Close n t = close_times conn_Close n (t_conn t)
   \<and> close_times TunnelConnection_Close (Suc n) t
     = fst (conn_Close (t_conn t)) # replicate n (Some ErrClosed)"
proof -
  have gen: "close_times (onceCloseListener_Close f) (Suc n) x
               = replicate (Suc n) (fst (onceCloseListener_Close f x))
           \<and> close_state (onceCloseListener_Close f) (Suc n) x
               = snd (onceCloseListener_Close f x)"
    for f :: "'x \<Rightarrow> error option \<times> 'x" and x
  proof -
    obtain e x' where c: "onceCloseListener_Close f x = (e, x')"
      by (cases "onceCloseListener_Close f x")
    from once_Close_done[of f x] c have d: "once_done x'" "closeErr x' = e"
      by simp_all
    from once_close_times_done[OF d(1), of f n] c d(2) show ?thesis
      by simp
  qed
  have res: "fst (onceCloseListener_Close lclose oc)
               = (if once_done oc then closeErr oc else fst (lclose (Listener oc)))"
    "snd (onceCloseListener_Close lclose oc)
       = (if once_done oc then oc
          else oc\<lparr>Listener := snd (lclose (Listener oc)),
                  closeErr := fst (lclose (Listener oc)),
                  once_done := True\<rparr>)"
    by (simp_all add: once_Close_result)
  have cnt: "snd (Listener (close_state (onceCloseListener_Close (counted lclose)) (Suc n)
                       \<lparr>Listener = (l, 0), once_done = False, closeErr = e0\<rparr>)) = 1"
    unfolding gen[THEN conjunct2]
    by (simp add: once_Close_result counted_def split: prod.splits)
  have "closed (snd (conn_Close (t_conn t)))"
    by (simp add: conn_Close_def)
  then have t: "close_times conn_Close (Suc n) (t_conn t)
                  = fst (conn_Close (t_conn t)) # replicate n (Some ErrClosed)"
    by (auto simp: conn_close_times_closed split: prod.splits)
  from gen[of lclose oc] res cnt t show ?thesis
    by (simp only: tunnel_close_times simp_thms)
qed

theorem close_idempotence_witness:
  "close_times (onceCloseListener_Close ex_lclose) 3
       \<lparr>Listener = False, once_done = False, closeErr = None\<rparr> = [None, None, None]
   \<and> close_state (onceCloseListener_Close ex_lclose) 3
       \<lparr>Listener = False, once_done = False, closeErr = None\<rparr>
       = \<lparr>Listener = True, once_done = True, closeErr = None\<rparr>
   \<and> close_state (onceCloseListener_Close (counted ex_lclose)) 3
       \<lparr>Listener = (False, 0), once_done = False, closeErr = None\<rparr>
       = \<lparr>Listener = (True, 1), once_done = True, closeErr = None\<rparr>
   \<and> close_times TunnelConnection_Close 3 ex_tunnel = [None, Some ErrClosed, Some ErrClosed]"
  using close_idempotence[of ex_lclose 2 "\<lparr>Listener = False, once_done = False, closeErr = None\<rparr>"
          False None ex_tunnel]
  by (simp add: onceCloseListener_Close_def onceCloseListener_close_def ex_lclose_def
      counted_def conn_Close_def ex_tunnel_def ex_conn_def numeral_3_eq_3 numeral_2_eq_2)

text \<open>
  The claim as stated fails for the tunnel: \<^verbatim>\<open>TunnelConnection.Close\<close> has no guard of its
  own, and the second call on an open tunnel returns an error where the first returned
  none.
\<close>

theorem tunnel_close_counterexample:
  "close_times TunnelConnection_Close 2 ex_tunnel = [None, Some ErrClosed]"
  by (simp add: numeral_2_eq_2 TunnelConnection_Close_def conn_Close_def ex_tunnel_def ex_conn_def)

subsection \<open>Handshake\<close>

lemma readHello_frame:
  assumes "\<not> closed c" and "rd c = frame ty p @ rest" and "length p \<le> BufferSize"
  shows "readHello parse c =
     (if ty \<noteq> PACKET_TYPE_HELLO then (Inl (UnexpectedPacket ty), c\<lparr>rd := rest\<rparr>)
      else (parse p, c\<lparr>rd := rest\<rparr>))"
proof -
  from assms(3) have fit: "length p \<le> length (replicate BufferSize (0 :: byte))" "length p \<le> 65535"
    by (simp_all add: BufferSize_def)
  show ?thesis
    by (simp add: readHello_def ReadPacket_frame[OF assms(1,2) fit])
qed

lemma handshake_frame:
  assumes "\<not> closed c" and "rd c = frame PACKET_TYPE_HELLO p @ rest"
    and "length p \<le> BufferSize" and "length local_data \<le> 65535"
  shows "handshake parse local_data c =
     ((case parse p of Inl e \<Rightarrow> Inl (HandshakeFailed e) | Inr r \<Rightarrow> Inr r),
      c\<lparr>wr := wr c @ frame PACKET_TYPE_HELLO local_data, rd := rest\<rparr>)"
proof -
  let ?c1 = "c\<lparr>wr := wr c @ frame PACKET_TYPE_HELLO local_data\<rparr>"
  have w: "writeHello c local_data = (None, ?c1)"
    by (simp add: writeHello_def WritePacket_open[OF assms(1,4)])
  have r: "readHello parse ?c1 = (parse p, ?c1\<lparr>rd := rest\<rparr>)"
    using readHello_frame[of ?c1 PACKET_TYPE_HELLO p rest parse] assms(1,2,3) by simp
  show ?thesis
    by (simp add: handshake_def w r split: sum.splits)
qed

text \<open>
  C4, as amended. After a handshake that yields a remote hello: when the remote cluster IP
  is not the all-zero sentinel, construction returns a tunnel exactly if the remote
  cluster IP equals the expected link's cluster address IP (where a link is expected), the
  remote cluster CIDR contains the local mesh address and the local mesh CIDR contains the
  remote cluster IP; otherwise it returns a cluster-address-mismatch error and no tunnel.
  When the remote cluster IP is the sentinel, construction returns the tunnel without any
  of these checks, also with an expected link.
\<close>

theorem handshake_address_checks:
  assumes "handshake parse local_data c = (Inr (Some hello), c')"
  shows "(\<not> IP_Equal IPv6zero (IP (hello_ClusterCIDR hello)) \<longrightarrow>
            ((\<exists>t. NewTunnelConnection parse local_data mux c remote link = (Some t, Some hello, None))
               = ((case link of None \<Rightarrow> True
                   | Some l \<Rightarrow> IP_Equal (IP (ClusterAddress l)) (IP (hello_ClusterCIDR hello)))
                  \<and> IPNet_Contains (hello_ClusterCIDR hello) (IP (clusterAddr mux))
                  \<and> IPNet_Contains (clusterAddr mux) (IP (hello_ClusterCIDR hello))))
            \<and> ((\<exists>t. NewTunnelConnection parse local_data mux c remote link = (Some t, Some hello, None))
                \<or> (\<exists>k. NewTunnelConnection parse local_data mux c remote link
                         = (None, Some hello, Some (ClusterAddressMismatch k)))))
       \<and> (IP_Equal IPv6zero (IP (hello_ClusterCIDR hello)) \<longrightarrow>
            (\<exists>t. NewTunnelConnection parse local_data mux c remote link = (Some t, Some hello, None)))"
  using assms
  by (cases link) (auto simp: NewTunnelConnection_def Let_def)

lemma ex_handshake:
  "handshake (\<lambda>p. Inr (Some h)) [1] (ex_conn\<lparr>rd := frame PACKET_TYPE_HELLO [2]\<rparr>)
     = (Inr (Some h), ex_conn\<lparr>wr := frame PACKET_TYPE_HELLO [1], rd := []\<rparr>)"
  using handshake_frame[of "ex_conn\<lparr>rd := frame PACKET_TYPE_HELLO [2]\<rparr>" "[2]" "[]" "[1]"
          "\<lambda>p. Inr (Some h)"]
  by (simp add: ex_conn_def BufferSize_def)

lemma IPv6zero_bytes: "IPv6zero = [0, 0, 0, 0, 0, 0, 0, 0, 0, 0, 0, 0, 0, 0, 0, 0]"
  by (simp add: IPv6zero_def numeral_eq_Suc)

lemma ex_hello_checks:
  "\<not> IP_Equal IPv6zero (IP (hello_ClusterCIDR (ex_hello d)))"
  "IP_Equal (IP (ClusterAddress ex_link)) (IP (hello_ClusterCIDR (ex_hello 12)))"
  "\<not> IP_Equal (IP (ClusterAddress ex_link)) (IP (hello_ClusterCIDR (ex_hello 13)))"
  "IPNet_Contains (hello_ClusterCIDR (ex_hello 12)) (IP (clusterAddr ex_mux))"
  "IPNet_Contains (clusterAddr ex_mux) (IP (hello_ClusterCIDR (ex_hello 12)))"
  "IP_Equal IPv6zero (IP (hello_ClusterCIDR ex_hello_anonymous))"
  "\<not> IP_Equal (IP (ClusterAddress ex_link)) (IP (hello_ClusterCIDR ex_hello_anonymous))"
  by (simp_all add: ex_hello_def ex_hello_anonymous_def ex_link_def ex_mux_def IP_Equal_def
      IPv6zero_bytes IPv4_def v4InV6Prefix_def IPNet_Contains_def networkNumberAndMask_def
      To4_def and_bytes_def)

theorem handshake_address_checks_witness:
  "handshake (\<lambda>p. Inr (Some (ex_hello 12))) [1] (ex_conn\<lparr>rd := frame PACKET_TYPE_HELLO [2]\<rparr>)
     = (Inr (Some (ex_hello 12)), ex_conn\<lparr>wr := frame PACKET_TYPE_HELLO [1], rd := []\<rparr>)
   \<and> \<not> IP_Equal IPv6zero (IP (hello_ClusterCIDR (ex_hello 12)))
   \<and> NewTunnelConnection (\<lambda>p. Inr (Some (ex_hello 12))) [1] ex_mux
        (ex_conn\<lparr>rd := frame PACKET_TYPE_HELLO [2]\<rparr>) ''10.0.0.2:8088'' (Some ex_link)
       = (Some \<lparr>t_conn = ex_conn\<lparr>wr := frame PACKET_TYPE_HELLO [1], rd := []\<rparr>,
                clusterCIDR = Some (ClusterAddress ex_link),
                remoteAddress = ''10.0.0.2:8088''\<rparr>,
          Some (ex_hello 12), None)
   \<and> NewTunnelConnection (\<lambda>p. Inr (Some (ex_hello 13))) [1] ex_mux
        (ex_conn\<lparr>rd := frame PACKET_TYPE_HELLO [2]\<rparr>) ''10.0.0.2:8088'' (Some ex_link)
       = (None, Some (ex_hello 13), Some (ClusterAddressMismatch GotButExpected))"
  using handshake_address_checks[of "\<lambda>p. Inr (Some (ex_hello 12))" "[1]"
          "ex_conn\<lparr>rd := frame PACKET_TYPE_HELLO [2]\<rparr>" "ex_hello 12"
          "ex_conn\<lparr>wr := frame PACKET_TYPE_HELLO [1], rd := []\<rparr>" ex_mux "''10.0.0.2:8088''"
          "Some ex_link"]
  by (simp add: ex_handshake ex_hello_checks NewTunnelConnection_def)

text \<open>
  The claim as stated fails for the anonymous peer: with the expected link 192.168.0.12
  and a remote hello of \<^verbatim>\<open>::/0\<close>, construction succeeds although the remote cluster IP
  is not the expected one.
\<close>

theorem anonymous_hello_counterexample:
  "NewTunnelConnection (\<lambda>p. Inr (Some ex_hello_anonymous)) [1] ex_mux
        (ex_conn\<lparr>rd := frame PACKET_TYPE_HELLO [2]\<rparr>) ''10.0.0.2:8088'' (Some ex_link)
       = (Some \<lparr>t_conn = ex_conn\<lparr>wr := frame PACKET_TYPE_HELLO [1], rd := []\<rparr>,
                clusterCIDR = Some (ClusterAddress ex_link),
                remoteAddress = ''10.0.0.2:8088''\<rparr>,
          Some ex_hello_anonymous, None)
   \<and> \<not> IP_Equal (IP (ClusterAddress ex_link)) (IP (hello_ClusterCIDR ex_hello_anonymous))"
  by (simp add: ex_handshake ex_hello_checks NewTunnelConnection_def)

end
